theory Spec2Isabelle
  imports Complex_Main
begin

section \<open>Data model of the game controller (src/main.js)\<close>

text \<open>
  The controller is the JavaScript class \<open>BlockCraftAdventure\<close>. Its fields become a record,
  its methods become state transformers that also return how the call completed (normally or
  by throwing), and every call it makes on a collaborator (UI, audio, renderer, world, player,
  storage, the DOM, the host's timers) is appended to a trace of effects. The collaborators'
  own code is not part of the controller: whether one of their calls throws, and the values
  they return, are read from an environment record.
\<close>

datatype GameState = LOADING | MENU | SINGLE_PLAYER | MULTIPLAYER | PAUSED

text \<open>\<open>GameConfig.worldSize\<close> and \<open>GameConfig.chunkSize\<close>.\<close>

definition worldSize :: "nat \<times> nat \<times> nat" where
  "worldSize = (10000, 10000, 256)"

definition chunkSize :: nat where
  "chunkSize = 16"

subsection \<open>Collaborator objects\<close>

text \<open>The keys of \<open>this.workers\<close>.\<close>

datatype Channel = worldGenerator | physics | pathfinding

datatype Worker = Worker string

datatype SettingsManager = SettingsManager
datatype AudioManager = AudioManager
datatype UIManager = UIManager
datatype MultiplayerManager = MultiplayerManager

text \<open>\<open>new Renderer(this.canvas, this.settings)\<close>: the object is known by its constructor
  arguments.\<close>

datatype Renderer = Renderer "string option" "SettingsManager option"

record point =
  pt_x :: real
  pt_y :: real
  pt_z :: real

text \<open>\<open>new World(worldSize, chunkSize, seed, type, generator)\<close>.\<close>

record World =
  w_worldSize :: "nat \<times> nat \<times> nat"
  w_chunkSize :: nat
  w_seed :: "int option"
  w_type :: string
  w_generator :: "Worker option"

text \<open>\<open>new Player(x, y, z, this.settings)\<close>.\<close>

record Player =
  p_x :: real
  p_y :: real
  p_z :: real
  p_settings :: "SettingsManager option"

text \<open>What \<open>world.save()\<close> returns, as far as \<open>loadGame\<close> reads it (\<open>name\<close>, \<open>seed\<close>,
  \<open>type\<close>); player and settings snapshots are opaque to the controller.\<close>

record WorldSnapshot =
  ws_name :: "string option"
  ws_seed :: "int option"
  ws_type :: "string option"

type_synonym PlayerSnapshot = nat
type_synonym SettingsSnapshot = nat

text \<open>The object literal \<open>saveData\<close> of \<open>saveGame\<close>. A field is \<open>None\<close> when the
  collaborator's \<open>save()\<close> returned \<open>null\<close> or \<open>undefined\<close>.\<close>

record SaveRecord =
  sr_world :: "WorldSnapshot option"
  sr_player :: "PlayerSnapshot option"
  sr_settings :: "SettingsSnapshot option"
  sr_timestamp :: int

text \<open>\<open>e.data\<close> of a worker message: its \<open>type\<close> tag and an opaque payload.\<close>

record WorkerMessage =
  m_type :: string
  m_payload :: nat

subsection \<open>Effects: the calls the controller makes on the outside\<close>

datatype dom_call = classList_add string string | classList_remove string string

datatype host_call = setInterval nat | setTimeout nat | addEventListener string
  | requestAnimationFrame

datatype settings_call = new_SettingsManager | settings_load "SettingsSnapshot option"
  | settings_get string | settings_save

datatype audio_call = new_AudioManager | playMusic string | pauseMusic | resumeMusic | stopMusic

datatype ui_call = new_UIManager | ui_setupEventListeners | showMainMenu | showPauseMenu
  | hidePauseMenu | updateFPS nat | update_ui | showMessage string | ui_showError string

datatype mp_call = new_MultiplayerManager | connect "string option" | mp_getSpawnPoint
  | disconnect

datatype renderer_call = new_Renderer | render real | resize | renderer_dispose

datatype world_call = new_World | getSpawnPoint | setPlayer | setMultiplayer | update_world real
  | receiveChunk nat | receivePhysicsUpdate nat | receivePath nat
  | world_save | world_load | world_dispose

datatype player_call = new_Player | update_player real | player_save | player_load

datatype storage_call = storage_saveGame SaveRecord | storage_loadGame nat

datatype effect =
    Dom dom_call
  | Host host_call
  | Console_log
  | Console_error
  | OnSettings settings_call
  | OnAudio audio_call
  | OnUI ui_call
  | OnMultiplayer mp_call
  | New_Worker string
  | OnRenderer renderer_call
  | OnWorld world_call
  | OnPlayer player_call
  | OnStorage storage_call

subsection \<open>The environment of one activation\<close>

text \<open>
  \<open>throws\<close> says which collaborator calls throw; the other fields are the values the
  activation reads from outside: \<open>performance.now()\<close> as read by the entry and resume
  methods and as read by \<open>gameLoop\<close>, \<open>isMobile()\<close>, \<open>settings.get('showFPS')\<close>, the two
  spawn points, and the three snapshots returned by the \<open>save()\<close> methods. \<open>Date.now()\<close>
  in \<open>saveGame\<close> is read after the method was entered: it is the wall-clock time at entry,
  \<open>call_time\<close>, plus the time \<open>elapsed\<close> since, which is not negative.
\<close>

record env =
  throws :: "effect \<Rightarrow> bool"
  performance_now :: real
  loop_now :: real
  call_time :: int
  elapsed :: nat
  isMobile :: bool
  showFPS :: bool
  worldSpawn :: point
  serverSpawn :: point
  worldSnap :: "WorldSnapshot option"
  playerSnap :: "PlayerSnapshot option"
  settingsSnap :: "SettingsSnapshot option"

definition Date_now :: "env \<Rightarrow> int" where
  "Date_now e = call_time e + int (elapsed e)"

subsection \<open>The controller's state\<close>

text \<open>
  The fields of \<open>this\<close>, a \<open>null\<close> field being \<open>None\<close>. \<open>isGameRunning\<close> is never
  initialised by the constructor: it is \<open>undefined\<close> until first written, and the code only
  tests its truthiness, so \<open>undefined\<close> is \<open>False\<close> here. Two more fields describe the
  outside: \<open>trace\<close>, the collaborator calls made so far, in order, and \<open>frameQueue\<close>, the
  number of callbacks handed to \<open>requestAnimationFrame\<close> that have not run yet.
\<close>

record game =
  state :: GameState
  canvas :: "string option"
  renderer :: "Renderer option"
  world :: "World option"
  player :: "Player option"
  ui :: "UIManager option"
  audio :: "AudioManager option"
  settings :: "SettingsManager option"
  multiplayer :: "MultiplayerManager option"
  workers :: "Channel \<Rightarrow> Worker option"
  lastTime :: real
  frameCount :: nat
  fps :: nat
  fpsUpdateTime :: real
  isInitialized :: bool
  isGameRunning :: bool
  trace :: "effect list"
  frameQueue :: nat

subsection \<open>Statements that may throw\<close>

datatype fault = TypeError | Thrown effect | Rejected

datatype completion = Normal | Throw fault

type_synonym proc = "game \<Rightarrow> completion \<times> game"

definition skip :: proc where
  "skip g = (Normal, g)"

definition throw :: "fault \<Rightarrow> proc" where
  "throw x g = (Throw x, g)"

definition assign :: "(game \<Rightarrow> game) \<Rightarrow> proc" where
  "assign f g = (Normal, f g)"

text \<open>A call that cannot throw (\<open>console.log\<close>, \<open>console.error\<close>).\<close>

definition emit :: "effect \<Rightarrow> proc" where
  "emit c g = (Normal, g\<lparr>trace := trace g @ [c]\<rparr>)"

text \<open>A collaborator call: it throws when the environment says so, and is recorded in the
  trace when it completes.\<close>

definition call :: "env \<Rightarrow> effect \<Rightarrow> proc" where
  "call e c g = (if throws e c then (Throw (Thrown c), g) else (Normal, g\<lparr>trace := trace g @ [c]\<rparr>))"

text \<open>A sequence of statements: the first one that throws ends the sequence, and what was
  written before stays written.\<close>

primrec block :: "proc list \<Rightarrow> proc" where
  "block [] g = (Normal, g)"
| "block (p # ps) g = (case p g of (Normal, g') \<Rightarrow> block ps g' | (Throw x, g') \<Rightarrow> (Throw x, g'))"

definition cond :: "(game \<Rightarrow> bool) \<Rightarrow> proc \<Rightarrow> proc" where
  "cond c p g = (if c g then p g else (Normal, g))"

definition try_catch :: "proc \<Rightarrow> proc \<Rightarrow> proc" where
  "try_catch p h g = (case p g of (Normal, g') \<Rightarrow> (Normal, g') | (Throw x, g') \<Rightarrow> h g')"

text \<open>Calling an \<open>async\<close> function, or running a promise callback: the caller gets a promise
  back, and a fault inside rejects that promise instead of reaching the caller.\<close>

definition async :: "proc \<Rightarrow> proc" where
  "async p g = (Normal, snd (p g))"

text \<open>Method calls through a field of \<open>this\<close>: a \<open>null\<close> receiver is a TypeError.\<close>

definition on_ui :: "env \<Rightarrow> ui_call \<Rightarrow> proc" where
  "on_ui e c g = (case ui g of None \<Rightarrow> (Throw TypeError, g) | Some _ \<Rightarrow> call e (OnUI c) g)"

definition on_audio :: "env \<Rightarrow> audio_call \<Rightarrow> proc" where
  "on_audio e c g = (case audio g of None \<Rightarrow> (Throw TypeError, g) | Some _ \<Rightarrow> call e (OnAudio c) g)"

definition on_settings :: "env \<Rightarrow> settings_call \<Rightarrow> proc" where
  "on_settings e c g =
     (case settings g of None \<Rightarrow> (Throw TypeError, g) | Some _ \<Rightarrow> call e (OnSettings c) g)"

definition on_multiplayer :: "env \<Rightarrow> mp_call \<Rightarrow> proc" where
  "on_multiplayer e c g =
     (case multiplayer g of None \<Rightarrow> (Throw TypeError, g) | Some _ \<Rightarrow> call e (OnMultiplayer c) g)"

definition on_renderer :: "env \<Rightarrow> renderer_call \<Rightarrow> proc" where
  "on_renderer e c g =
     (case renderer g of None \<Rightarrow> (Throw TypeError, g) | Some _ \<Rightarrow> call e (OnRenderer c) g)"

definition on_world :: "env \<Rightarrow> world_call \<Rightarrow> proc" where
  "on_world e c g = (case world g of None \<Rightarrow> (Throw TypeError, g) | Some _ \<Rightarrow> call e (OnWorld c) g)"

definition on_player :: "env \<Rightarrow> player_call \<Rightarrow> proc" where
  "on_player e c g =
     (case player g of None \<Rightarrow> (Throw TypeError, g) | Some _ \<Rightarrow> call e (OnPlayer c) g)"

section \<open>The methods of \<open>BlockCraftAdventure\<close>\<close>

text \<open>The state the constructor leaves before it calls \<open>init\<close>.\<close>

definition constructed :: game where
  "constructed = \<lparr>state = LOADING, canvas = None, renderer = None, world = None, player = None,
     ui = None, audio = None, settings = None, multiplayer = None, workers = (\<lambda>_. None),
     lastTime = 0, frameCount = 0, fps = 0, fpsUpdateTime = 0, isInitialized = False,
     isGameRunning = False, trace = [], frameQueue = 0\<rparr>"

text \<open>\<open>showLoadingScreen\<close>, \<open>hideLoadingScreen\<close>. The interval callback of the loading screen
  only moves the progress bar and is not modelled.\<close>

definition showLoadingScreen :: "env \<Rightarrow> proc" where
  "showLoadingScreen e = block [
     call e (Dom (classList_add ''loading-screen'' ''active'')),
     call e (Host (setInterval 200))]"

definition hideLoadingScreen :: "env \<Rightarrow> proc" where
  "hideLoadingScreen e = call e (Dom (classList_remove ''loading-screen'' ''active''))"

text \<open>\<open>initWorkers\<close>: the only place that writes \<open>this.workers\<close>.\<close>

definition initWorkers :: "env \<Rightarrow> proc" where
  "initWorkers e = block [
     call e (New_Worker ''js/workers/world-generator.js''),
     assign (\<lambda>g. g\<lparr>workers := (workers g)(worldGenerator \<mapsto> Worker ''js/workers/world-generator.js'')\<rparr>),
     call e (New_Worker ''js/workers/physics-worker.js''),
     assign (\<lambda>g. g\<lparr>workers := (workers g)(physics \<mapsto> Worker ''js/workers/physics-worker.js'')\<rparr>),
     call e (New_Worker ''js/workers/pathfinding.js''),
     assign (\<lambda>g. g\<lparr>workers := (workers g)(pathfinding \<mapsto> Worker ''js/workers/pathfinding.js'')\<rparr>)]"

text \<open>The three \<open>onmessage\<close> handlers installed by \<open>initWorkers\<close>.\<close>

definition worldGenerator_onmessage :: "env \<Rightarrow> WorkerMessage \<Rightarrow> proc" where
  "worldGenerator_onmessage e m =
     cond (\<lambda>_. m_type m = ''chunkGenerated'') (on_world e (receiveChunk (m_payload m)))"

definition physics_onmessage :: "env \<Rightarrow> WorkerMessage \<Rightarrow> proc" where
  "physics_onmessage e m =
     cond (\<lambda>_. m_type m = ''physicsUpdate'') (on_world e (receivePhysicsUpdate (m_payload m)))"

definition pathfinding_onmessage :: "env \<Rightarrow> WorkerMessage \<Rightarrow> proc" where
  "pathfinding_onmessage e m =
     cond (\<lambda>_. m_type m = ''pathFound'') (on_world e (receivePath (m_payload m)))"

definition onmessage :: "env \<Rightarrow> Channel \<Rightarrow> WorkerMessage \<Rightarrow> proc" where
  "onmessage e ch m = (case ch of
       worldGenerator \<Rightarrow> worldGenerator_onmessage e m
     | physics \<Rightarrow> physics_onmessage e m
     | pathfinding \<Rightarrow> pathfinding_onmessage e m)"

definition setupEventListeners :: "env \<Rightarrow> proc" where
  "setupEventListeners e = block [
     call e (Host (addEventListener ''resize'')),
     call e (Host (addEventListener ''beforeunload'')),
     call e (Host (addEventListener ''error'')),
     on_ui e ui_setupEventListeners]"

definition handleResize :: "env \<Rightarrow> proc" where
  "handleResize e = cond (\<lambda>g. renderer g \<noteq> None) (on_renderer e resize)"

definition showError :: "env \<Rightarrow> string \<Rightarrow> proc" where
  "showError e message = on_ui e (ui_showError message)"

subsection \<open>The frame loop\<close>

definition gameLoop :: "env \<Rightarrow> proc" where
  "gameLoop e g0 =
    (let g1 = (if \<not> isGameRunning g0 then g0\<lparr>isGameRunning := True\<rparr> else g0);
         currentTime = loop_now e;
         deltaTime = (currentTime - lastTime g1) / 1000
     in block [
       assign (\<lambda>g. g\<lparr>lastTime := currentTime\<rparr>),
       assign (\<lambda>g. g\<lparr>frameCount := frameCount g + 1\<rparr>),
       cond (\<lambda>g. currentTime - fpsUpdateTime g \<ge> 1000) (block [
         assign (\<lambda>g. g\<lparr>fps := frameCount g\<rparr>),
         assign (\<lambda>g. g\<lparr>frameCount := 0\<rparr>),
         assign (\<lambda>g. g\<lparr>fpsUpdateTime := currentTime\<rparr>),
         on_settings e (settings_get ''showFPS''),
         cond (\<lambda>_. showFPS e) (\<lambda>g. on_ui e (updateFPS (fps g)) g)]),
       cond (\<lambda>g. world g \<noteq> None) (on_world e (update_world deltaTime)),
       cond (\<lambda>g. player g \<noteq> None) (on_player e (update_player deltaTime)),
       cond (\<lambda>g. renderer g \<noteq> None) (on_renderer e (render (currentTime / 1000))),
       cond (\<lambda>g. ui g \<noteq> None) (on_ui e update_ui),
       cond isGameRunning (block [
         call e (Host requestAnimationFrame),
         assign (\<lambda>g. g\<lparr>frameQueue := frameQueue g + 1\<rparr>)])] g1)"

text \<open>The host runs one queued frame callback, \<open>() => this.gameLoop()\<close>.\<close>

definition frameTick :: "env \<Rightarrow> proc" where
  "frameTick e g = (if frameQueue g = 0 then (Normal, g)
     else gameLoop e (g\<lparr>frameQueue := frameQueue g - 1\<rparr>))"

subsection \<open>Pause, resume, return to menu\<close>

definition pauseGame :: "env \<Rightarrow> proc" where
  "pauseGame e = block [
     on_ui e showPauseMenu,
     on_audio e pauseMusic,
     emit Console_log]"

definition resumeGame :: "env \<Rightarrow> proc" where
  "resumeGame e = block [
     on_ui e hidePauseMenu,
     on_audio e resumeMusic,
     assign (\<lambda>g. g\<lparr>lastTime := performance_now e\<rparr>),
     gameLoop e,
     emit Console_log]"

definition returnToMenu :: "env \<Rightarrow> proc" where
  "returnToMenu e = block [
     assign (\<lambda>g. g\<lparr>isGameRunning := False\<rparr>),
     call e (Dom (classList_add ''game-screen'' ''hidden'')),
     call e (Dom (classList_add ''mobile-controls'' ''hidden'')),
     on_audio e stopMusic,
     cond (\<lambda>g. renderer g \<noteq> None) (block [
       on_renderer e renderer_dispose,
       assign (\<lambda>g. g\<lparr>renderer := None\<rparr>)]),
     cond (\<lambda>g. world g \<noteq> None) (block [
       on_world e world_dispose,
       assign (\<lambda>g. g\<lparr>world := None\<rparr>)]),
     cond (\<lambda>g. multiplayer g \<noteq> None) (on_multiplayer e disconnect),
     on_ui e showMainMenu,
     emit Console_log]"

subsection \<open>\<open>setState\<close> and session entry\<close>

text \<open>
  \<open>setState\<close> calls \<open>startSinglePlayer\<close> and \<open>startMultiplayer\<close>, whose \<open>catch\<close> blocks call
  \<open>setState(GameState.MENU)\<close> again. The body of \<open>setState\<close> is therefore written once, with
  the two entry methods as parameters; \<open>setState_MENU\<close> is the call made by the \<open>catch\<close>
  blocks, in which the \<open>switch\<close> takes the \<open>MENU\<close> case and the entry methods are not
  reached; \<open>setState\<close> itself is defined below, once the entry methods are.
\<close>

definition setState_with :: "proc \<Rightarrow> proc \<Rightarrow> env \<Rightarrow> GameState \<Rightarrow> proc" where
  "setState_with sp mp e newState = block [
     assign (\<lambda>g. g\<lparr>state := newState\<rparr>),
     (case newState of
        SINGLE_PLAYER \<Rightarrow> sp
      | MULTIPLAYER \<Rightarrow> mp
      | PAUSED \<Rightarrow> pauseGame e
      | MENU \<Rightarrow> returnToMenu e
      | LOADING \<Rightarrow> skip),
     emit Console_log]"

definition setState_MENU :: "env \<Rightarrow> proc" where
  "setState_MENU e = setState_with skip skip e MENU"

text \<open>The \<open>try\<close> block of \<open>startSinglePlayer\<close>.\<close>

definition startSinglePlayer_try :: "env \<Rightarrow> string option \<Rightarrow> int option \<Rightarrow> string \<Rightarrow> proc" where
  "startSinglePlayer_try e worldName worldSeed worldType = block [
     assign (\<lambda>g. g\<lparr>canvas := Some ''game-canvas''\<rparr>),
     call e (OnRenderer new_Renderer),
     assign (\<lambda>g. g\<lparr>renderer := Some (Renderer (canvas g) (settings g))\<rparr>),
     call e (OnWorld new_World),
     assign (\<lambda>g. g\<lparr>world := Some \<lparr>w_worldSize = worldSize, w_chunkSize = chunkSize,
        w_seed = worldSeed, w_type = worldType, w_generator = workers g worldGenerator\<rparr>\<rparr>),
     on_world e getSpawnPoint,
     call e (OnPlayer new_Player),
     assign (\<lambda>g. g\<lparr>player := Some \<lparr>p_x = pt_x (worldSpawn e), p_y = pt_y (worldSpawn e),
        p_z = pt_z (worldSpawn e), p_settings = settings g\<rparr>\<rparr>),
     on_world e setPlayer,
     assign (\<lambda>g. g\<lparr>lastTime := performance_now e\<rparr>),
     gameLoop e,
     on_audio e (playMusic ''game''),
     call e (Dom (classList_remove ''game-screen'' ''hidden'')),
     cond (\<lambda>_. isMobile e) (call e (Dom (classList_remove ''mobile-controls'' ''hidden''))),
     emit Console_log]"

text \<open>The \<open>catch\<close> block of both entry methods, with its message.\<close>

definition start_catch :: "env \<Rightarrow> string \<Rightarrow> proc" where
  "start_catch e message = block [
     emit Console_error,
     showError e message,
     setState_MENU e]"

definition startSinglePlayer :: "env \<Rightarrow> string option \<Rightarrow> int option \<Rightarrow> string \<Rightarrow> proc" where
  "startSinglePlayer e worldName worldSeed worldType =
     async (try_catch (startSinglePlayer_try e worldName worldSeed worldType)
                      (start_catch e ''Failed to start game. Please try again.''))"

text \<open>
  \<open>startMultiplayer\<close> suspends at \<open>await this.multiplayer.connect(serverAddress)\<close>. What runs
  before that point is \<open>startMultiplayer\<close>; what runs when the promise settles is
  \<open>startMultiplayer_resume\<close>, whose argument says whether the promise resolved.
\<close>

definition startMultiplayer_try1 :: "env \<Rightarrow> string option \<Rightarrow> proc" where
  "startMultiplayer_try1 e serverAddress = block [
     assign (\<lambda>g. g\<lparr>canvas := Some ''game-canvas''\<rparr>),
     call e (OnRenderer new_Renderer),
     assign (\<lambda>g. g\<lparr>renderer := Some (Renderer (canvas g) (settings g))\<rparr>),
     on_multiplayer e (connect serverAddress)]"

definition startMultiplayer_try2 :: "env \<Rightarrow> bool \<Rightarrow> proc" where
  "startMultiplayer_try2 e resolved = block [
     (if resolved then skip else throw Rejected),
     on_multiplayer e mp_getSpawnPoint,
     call e (OnPlayer new_Player),
     assign (\<lambda>g. g\<lparr>player := Some \<lparr>p_x = pt_x (serverSpawn e), p_y = pt_y (serverSpawn e),
        p_z = pt_z (serverSpawn e), p_settings = settings g\<rparr>\<rparr>),
     call e (OnWorld new_World),
     assign (\<lambda>g. g\<lparr>world := Some \<lparr>w_worldSize = worldSize, w_chunkSize = chunkSize,
        w_seed = None, w_type = ''multiplayer'', w_generator = workers g worldGenerator\<rparr>\<rparr>),
     on_world e setPlayer,
     on_world e setMultiplayer,
     assign (\<lambda>g. g\<lparr>lastTime := performance_now e\<rparr>),
     gameLoop e,
     on_audio e (playMusic ''game''),
     call e (Dom (classList_remove ''game-screen'' ''hidden'')),
     cond (\<lambda>_. isMobile e) (call e (Dom (classList_remove ''mobile-controls'' ''hidden''))),
     emit Console_log]"

definition startMultiplayer :: "env \<Rightarrow> string option \<Rightarrow> proc" where
  "startMultiplayer e serverAddress =
     async (try_catch (startMultiplayer_try1 e serverAddress)
                      (start_catch e ''Failed to connect to server. Please try again.''))"

definition startMultiplayer_resume :: "env \<Rightarrow> bool \<Rightarrow> proc" where
  "startMultiplayer_resume e resolved =
     async (try_catch (startMultiplayer_try2 e resolved)
                      (start_catch e ''Failed to connect to server. Please try again.''))"

text \<open>\<open>setState(newState)\<close>: the entry methods are called without arguments, so they run
  with their defaults (\<open>null\<close>, \<open>null\<close>, \<open>'default'\<close>; \<open>null\<close>).\<close>

definition setState :: "env \<Rightarrow> GameState \<Rightarrow> proc" where
  "setState e newState =
     setState_with (startSinglePlayer e None None ''default'') (startMultiplayer e None) e newState"

subsection \<open>Start-up\<close>

text \<open>
  \<open>init\<close> suspends once, at \<open>await this.settings.load()\<close>; \<open>loaded\<close> says whether that
  promise resolves. Nothing else of the controller runs while it is suspended, since the
  listeners are installed later, so the two halves are one sequence here.
\<close>

definition init :: "env \<Rightarrow> bool \<Rightarrow> proc" where
  "init e loaded = async (try_catch (block [
       showLoadingScreen e,
       call e (OnSettings new_SettingsManager),
       assign (\<lambda>g. g\<lparr>settings := Some SettingsManager\<rparr>),
       on_settings e (settings_load None),
       (if loaded then skip else throw Rejected),
       call e (OnAudio new_AudioManager),
       assign (\<lambda>g. g\<lparr>audio := Some AudioManager\<rparr>),
       call e (OnUI new_UIManager),
       assign (\<lambda>g. g\<lparr>ui := Some UIManager\<rparr>),
       call e (OnMultiplayer new_MultiplayerManager),
       assign (\<lambda>g. g\<lparr>multiplayer := Some MultiplayerManager\<rparr>),
       initWorkers e,
       setupEventListeners e,
       call e (Host (setTimeout 2000)),
       assign (\<lambda>g. g\<lparr>isInitialized := True\<rparr>),
       emit Console_log])
     (block [
       emit Console_error,
       showError e ''Failed to initialize game. Please refresh the page.'']))"

text \<open>The callback handed to \<open>setTimeout\<close> by \<open>init\<close>.\<close>

definition loadingTimeout :: "env \<Rightarrow> proc" where
  "loadingTimeout e = block [
     hideLoadingScreen e,
     setState e MENU,
     on_ui e showMainMenu]"

subsection \<open>Saving and loading\<close>

text \<open>
  \<open>saveGame\<close> returns once \<open>StorageManager.saveGame(saveData)\<close> has returned its promise;
  \<open>saveGame_settled\<close> is the chain \<open>.then(...).catch(...)\<close> run when that promise settles
  (\<open>True\<close>: resolved). Likewise for \<open>loadGame\<close>, whose promise resolves to a record or to
  nothing.
\<close>

definition saveGame :: "env \<Rightarrow> proc" where
  "saveGame e = cond (\<lambda>g. world g \<noteq> None \<and> player g \<noteq> None) (block [
     on_world e world_save,
     on_player e player_save,
     on_settings e settings_save,
     call e (OnStorage (storage_saveGame \<lparr>sr_world = worldSnap e, sr_player = playerSnap e,
        sr_settings = settingsSnap e, sr_timestamp = Date_now e\<rparr>))])"

definition saveGame_settled :: "env \<Rightarrow> bool \<Rightarrow> proc" where
  "saveGame_settled e resolved = async (try_catch
     (if resolved then on_ui e (showMessage ''Game saved successfully!'') else throw Rejected)
     (block [
        emit Console_error,
        on_ui e (ui_showError ''Failed to save game.'')]))"

datatype 'a settled = Resolves 'a | Rejects

definition loadGame :: "env \<Rightarrow> nat \<Rightarrow> proc" where
  "loadGame e saveId = call e (OnStorage (storage_loadGame saveId))"

definition loadGame_then :: "env \<Rightarrow> SaveRecord option \<Rightarrow> proc" where
  "loadGame_then e saveData = (case saveData of
       Some sd \<Rightarrow> block [
         on_settings e (settings_load (sr_settings sd)),
         (case sr_world sd of
            None \<Rightarrow> throw TypeError
          | Some w \<Rightarrow> startSinglePlayer e (ws_name w) (ws_seed w)
                       (case ws_type w of None \<Rightarrow> ''default'' | Some t \<Rightarrow> t)),
         on_player e player_load,
         on_world e world_load,
         on_ui e (showMessage ''Game loaded successfully!'')]
     | None \<Rightarrow> on_ui e (ui_showError ''Save file not found.''))"

definition loadGame_settled :: "env \<Rightarrow> SaveRecord option settled \<Rightarrow> proc" where
  "loadGame_settled e r = async (try_catch
     (case r of Resolves saveData \<Rightarrow> loadGame_then e saveData | Rejects \<Rightarrow> throw Rejected)
     (block [
        emit Console_error,
        on_ui e (ui_showError ''Failed to load game.'')]))"

section \<open>Definitions used by the statements and proofs\<close>

subsection \<open>Observations on a state\<close>

text \<open>The worker channels: the contents of \<open>this.workers\<close> together with the workers
  constructed so far.\<close>

definition worker_effects :: "effect list \<Rightarrow> effect list" where
  "worker_effects tr = filter (\<lambda>c. case c of New_Worker _ \<Rightarrow> True | _ \<Rightarrow> False) tr"

definition channels :: "game \<Rightarrow> (Channel \<Rightarrow> Worker option) \<times> effect list" where
  "channels g = (workers g, worker_effects (trace g))"

text \<open>What only \<open>init\<close> writes: the four long-lived collaborators and the worker channels.\<close>

definition fixed :: "game \<Rightarrow> (UIManager option \<times> AudioManager option \<times> SettingsManager option
    \<times> MultiplayerManager option) \<times> (Channel \<Rightarrow> Worker option) \<times> effect list" where
  "fixed g = ((ui g, audio g, settings g, multiplayer g), channels g)"

text \<open>The figures handed to \<open>ui.updateFPS\<close>, in order.\<close>

fun fps_updates :: "effect list \<Rightarrow> nat list" where
  "fps_updates [] = []"
| "fps_updates (OnUI (updateFPS n) # tr) = n # fps_updates tr"
| "fps_updates (_ # tr) = fps_updates tr"

definition fps_view :: "game \<Rightarrow> nat list \<times> real" where
  "fps_view g = (fps_updates (trace g), fpsUpdateTime g)"

text \<open>The number of frame callbacks requested in a trace: one per pass that rescheduled
  itself.\<close>

definition passes :: "effect list \<Rightarrow> nat" where
  "passes tr = count_list tr (Host requestAnimationFrame)"

text \<open>\<open>keeps f p\<close>: statement \<open>p\<close> never changes the observation \<open>f\<close>, whether it
  completes or throws.\<close>

definition keeps :: "(game \<Rightarrow> 'a) \<Rightarrow> proc \<Rightarrow> bool" where
  "keeps f p = (\<forall>g. f (snd (p g)) = f g)"

subsection \<open>Runs\<close>

text \<open>A sequence of \<open>setState\<close> requests, each in its own environment, and a sequence of
  frame ticks.\<close>

definition setStates :: "(env \<times> GameState) list \<Rightarrow> game \<Rightarrow> game" where
  "setStates rs g = foldl (\<lambda>g (e, s). snd (setState e s g)) g rs"

definition frameTicks :: "env list \<Rightarrow> game \<Rightarrow> game" where
  "frameTicks es g = foldl (\<lambda>g e. snd (frameTick e g)) g es"

text \<open>The times of those passes of a run of \<open>gameLoop\<close> passes in which \<open>ui.updateFPS\<close> was
  called.\<close>

fun fps_times :: "env list \<Rightarrow> game \<Rightarrow> real list" where
  "fps_times [] g = []"
| "fps_times (e # es) g =
     (if length (fps_updates (trace (snd (gameLoop e g)))) > length (fps_updates (trace g))
      then [loop_now e] else [])
     @ fps_times es (snd (gameLoop e g))"

subsection \<open>Conditions on the environment\<close>

text \<open>No collaborator call throws.\<close>

definition quiet :: "env \<Rightarrow> bool" where
  "quiet e = (\<forall>c. \<not> throws e c)"

text \<open>The \<open>catch\<close> block of an entry method got its message to the UI.\<close>

definition reported :: "env \<Rightarrow> string \<Rightarrow> game \<Rightarrow> bool" where
  "reported e message g = (ui g \<noteq> None \<and> \<not> throws e (OnUI (ui_showError message)))"

text \<open>The entry method called by \<open>setState(s)\<close> in state \<open>g\<close> failed before \<open>setState\<close>
  returned, and its \<open>catch\<close> block went on to \<open>setState(GameState.MENU)\<close>.\<close>

definition entry_fell_back :: "env \<Rightarrow> GameState \<Rightarrow> game \<Rightarrow> bool" where
  "entry_fell_back e s g =
     (s = SINGLE_PLAYER
        \<and> fst (startSinglePlayer_try e None None ''default'' (g\<lparr>state := s\<rparr>)) \<noteq> Normal
        \<and> reported e ''Failed to start game. Please try again.'' g
    \<or> s = MULTIPLAYER
        \<and> fst (startMultiplayer_try1 e None (g\<lparr>state := s\<rparr>)) \<noteq> Normal
        \<and> reported e ''Failed to connect to server. Please try again.'' g)"

text \<open>None of the calls of the recovery path (the error report, then \<open>returnToMenu\<close>)
  throws.\<close>

definition recovery_ok :: "env \<Rightarrow> string \<Rightarrow> bool" where
  "recovery_ok e message =
     (\<not> throws e (OnUI (ui_showError message))
    \<and> \<not> throws e (Dom (classList_add ''game-screen'' ''hidden''))
    \<and> \<not> throws e (Dom (classList_add ''mobile-controls'' ''hidden''))
    \<and> \<not> throws e (OnAudio stopMusic)
    \<and> \<not> throws e (OnRenderer renderer_dispose)
    \<and> \<not> throws e (OnWorld world_dispose)
    \<and> \<not> throws e (OnMultiplayer disconnect)
    \<and> \<not> throws e (OnUI showMainMenu))"

text \<open>
  \<open>fallen_back message g g'\<close>: starting from the state \<open>g\<close> in which an entry failed, the
  controller has reached \<open>g'\<close>: the mode is \<open>MENU\<close>, the frame-loop flag is cleared, the UI
  has been given the message, the Renderer and the World that \<open>g\<close> had have been disposed
  and both references are \<open>null\<close>, and the Player reference is what it was in \<open>g\<close>.
\<close>

definition fallen_back :: "string \<Rightarrow> game \<Rightarrow> game \<Rightarrow> bool" where
  "fallen_back message g g' =
     (state g' = MENU \<and> renderer g' = None \<and> world g' = None \<and> \<not> isGameRunning g'
    \<and> OnUI (ui_showError message) \<in> set (drop (length (trace g)) (trace g'))
    \<and> (renderer g \<noteq> None \<longrightarrow>
          OnRenderer renderer_dispose \<in> set (drop (length (trace g)) (trace g')))
    \<and> (world g \<noteq> None \<longrightarrow> OnWorld world_dispose \<in> set (drop (length (trace g)) (trace g')))
    \<and> player g' = player g)"

text \<open>
  In a pass of \<open>gameLoop\<close> run in state \<open>g\<close>, the FPS figure is due and gets through: the
  one-second window that started at \<open>fpsUpdateTime\<close> is over, \<open>settings.get('showFPS')\<close>
  answers and is truthy, and \<open>ui.updateFPS\<close> accepts the figure.
\<close>

definition fps_due :: "env \<Rightarrow> game \<Rightarrow> bool" where
  "fps_due e g =
     (loop_now e - fpsUpdateTime g \<ge> 1000
    \<and> settings g \<noteq> None \<and> \<not> throws e (OnSettings (settings_get ''showFPS''))
    \<and> showFPS e
    \<and> ui g \<noteq> None \<and> \<not> throws e (OnUI (updateFPS (frameCount g + 1))))"

subsection \<open>Concrete environments and states\<close>

text \<open>An environment in which no call throws, and one in which the World's constructor
  does.\<close>

definition calm :: env where
  "calm = \<lparr>throws = (\<lambda>_. False), performance_now = 5000, loop_now = 5000, call_time = 100,
     elapsed = 3, isMobile = False, showFPS = True,
     worldSpawn = \<lparr>pt_x = 0, pt_y = 64, pt_z = 0\<rparr>,
     serverSpawn = \<lparr>pt_x = 8, pt_y = 70, pt_z = 8\<rparr>,
     worldSnap = Some \<lparr>ws_name = Some ''w'', ws_seed = Some 42, ws_type = Some ''default''\<rparr>,
     playerSnap = Some 1, settingsSnap = Some 2\<rparr>"

definition broken :: env where
  "broken = calm\<lparr>throws := (\<lambda>c. c = OnWorld new_World)\<rparr>"

text \<open>
  The controller after a successful \<open>init\<close> (\<open>booted\<close>, mode \<open>LOADING\<close>), after the
  loading timeout (\<open>in_menu\<close>), after \<open>setState(SINGLE_PLAYER)\<close> from the menu (\<open>in_game\<close>),
  after \<open>setState(PAUSED)\<close> from there (\<open>paused\<close>), and after \<open>setState(MULTIPLAYER)\<close> from
  the menu, suspended at the \<open>await\<close> (\<open>awaiting\<close>).
\<close>

definition booted :: game where
  "booted = snd (init calm True constructed)"

definition in_menu :: game where
  "in_menu = snd (loadingTimeout calm booted)"

definition in_game :: game where
  "in_game = snd (setState calm SINGLE_PLAYER in_menu)"

definition paused :: game where
  "paused = snd (setState calm PAUSED in_game)"

definition awaiting :: game where
  "awaiting = snd (setState broken MULTIPLAYER in_menu)"

subsection \<open>Sequencing on a result\<close>

text \<open>\<open>block\<close> and \<open>try_catch\<close>, restated on the result of the first statement, so that
  a proof can run a sequence one statement at a time.\<close>

definition then_do :: "completion \<times> game \<Rightarrow> proc \<Rightarrow> completion \<times> game" where
  "then_do r q = (case r of (Normal, g') \<Rightarrow> q g' | (Throw x, g') \<Rightarrow> (Throw x, g'))"

definition catch_do :: "completion \<times> game \<Rightarrow> proc \<Rightarrow> completion \<times> game" where
  "catch_do r h = (case r of (Normal, g') \<Rightarrow> (Normal, g') | (Throw x, g') \<Rightarrow> h g')"

section \<open>Proof tools\<close>

declare not_None_eq [simp del]

lemma on_if:
  "on_ui e a g = (if ui g = None then (Throw TypeError, g) else call e (OnUI a) g)"
  "on_audio e b g = (if audio g = None then (Throw TypeError, g) else call e (OnAudio b) g)"
  "on_settings e s g = (if settings g = None then (Throw TypeError, g) else call e (OnSettings s) g)"
  "on_multiplayer e m g = (if multiplayer g = None then (Throw TypeError, g) else call e (OnMultiplayer m) g)"
  "on_renderer e r g = (if renderer g = None then (Throw TypeError, g) else call e (OnRenderer r) g)"
  "on_world e w g = (if world g = None then (Throw TypeError, g) else call e (OnWorld w) g)"
  "on_player e pl g = (if player g = None then (Throw TypeError, g) else call e (OnPlayer pl) g)"
  by (simp_all add: on_ui_def on_audio_def on_settings_def on_multiplayer_def on_renderer_def
       on_world_def on_player_def split: option.splits)

lemma block_Cons: "block (p # ps) g = then_do (p g) (block ps)"
  by (simp add: then_do_def)

lemma try_catch_alt: "try_catch p h g = catch_do (p g) h"
  by (simp add: try_catch_def catch_do_def)

lemma then_do_simps:
  "then_do (Normal, g) q = q g"
  "then_do (Throw x, g) q = (Throw x, g)"
  "then_do (if b then r else r') q = (if b then then_do r q else then_do r' q)"
  by (simp_all add: then_do_def)

lemma catch_do_simps:
  "catch_do (Normal, g) h = (Normal, g)"
  "catch_do (Throw x, g) h = h g"
  "catch_do (if b then r else r') h = (if b then catch_do r h else catch_do r' h)"
  by (simp_all add: catch_do_def)

lemma then_do_Nil: "then_do r (block []) = r"
  by (cases r) (auto simp: then_do_def split: completion.splits)

declare block.simps(2) [simp del]

lemmas exec = skip_def throw_def assign_def emit_def call_def cond_def async_def on_if
  block_Cons try_catch_alt then_do_simps then_do_Nil catch_do_simps

subsection \<open>Fields that a statement leaves alone\<close>

lemma keepsD: "keeps f p \<Longrightarrow> f (snd (p g)) = f g"
  by (simp add: keeps_def)

lemma keeps_block: "(\<And>p. p \<in> set ps \<Longrightarrow> keeps f p) \<Longrightarrow> keeps f (block ps)"
proof (induction ps)
  case Nil
  then show ?case by (simp add: keeps_def)
next
  case (Cons p ps)
  have kp: "keeps f p" and kps: "keeps f (block ps)" using Cons by simp_all
  show ?case unfolding keeps_def
  proof
    fix g
    show "f (snd (block (p # ps) g)) = f g"
    proof (cases "p g")
      case (Pair c g')
      with kp have "f g' = f g" by (metis keeps_def snd_conv)
      with Pair kps show ?thesis by (cases c) (auto simp: keeps_def block.simps)
    qed
  qed
qed

lemma keeps_skip: "keeps f skip"
  by (simp add: keeps_def skip_def)

lemma keeps_throw: "keeps f (throw x)"
  by (simp add: keeps_def throw_def)

lemma keeps_assign: "(\<And>g. f (h g) = f g) \<Longrightarrow> keeps f (assign h)"
  by (simp add: keeps_def assign_def)

lemma keeps_emit: "(\<And>g. f (g\<lparr>trace := trace g @ [c]\<rparr>) = f g) \<Longrightarrow> keeps f (emit c)"
  by (simp add: keeps_def emit_def)

lemma keeps_call: "(\<And>g. f (g\<lparr>trace := trace g @ [c]\<rparr>) = f g) \<Longrightarrow> keeps f (call e c)"
  by (simp add: keeps_def call_def)

lemma keeps_cond: "keeps f p \<Longrightarrow> keeps f (cond c p)"
  by (simp add: keeps_def cond_def)

lemma keeps_async: "keeps f p \<Longrightarrow> keeps f (async p)"
  by (simp add: keeps_def async_def)

lemma keeps_if: "keeps f p \<Longrightarrow> keeps f q \<Longrightarrow> keeps f (if b then p else q)"
  by simp

lemma keeps_try_catch: "keeps f p \<Longrightarrow> keeps f h \<Longrightarrow> keeps f (try_catch p h)"
  unfolding keeps_def try_catch_def
proof
  fix g assume a: "\<forall>g. f (snd (p g)) = f g" and b: "\<forall>g. f (snd (h g)) = f g"
  show "f (snd (case p g of (Normal, g') \<Rightarrow> (Normal, g') | (Throw x, g') \<Rightarrow> h g')) = f g"
  proof (cases "p g")
    case (Pair c g')
    with a have "f g' = f g" by (metis snd_conv)
    with Pair b show ?thesis by (cases c) auto
  qed
qed

lemmas keeps_intros = keeps_block keeps_skip keeps_throw keeps_assign keeps_emit keeps_call
  keeps_cond keeps_async keeps_try_catch keeps_if

subsection \<open>The concrete environments and states, field by field\<close>

lemma calm_simps [simp]:
  "throws calm c = False" "performance_now calm = 5000" "loop_now calm = 5000"
  "call_time calm = 100" "elapsed calm = 3" "isMobile calm = False" "showFPS calm = True"
  "worldSpawn calm = \<lparr>pt_x = 0, pt_y = 64, pt_z = 0\<rparr>"
  "serverSpawn calm = \<lparr>pt_x = 8, pt_y = 70, pt_z = 8\<rparr>"
  "worldSnap calm = Some \<lparr>ws_name = Some ''w'', ws_seed = Some 42, ws_type = Some ''default''\<rparr>"
  "playerSnap calm = Some 1" "settingsSnap calm = Some 2"
  by (simp_all add: calm_def)

lemma booted_fields [simp]:
  "state booted = LOADING" "canvas booted = None" "renderer booted = None" "world booted = None"
  "player booted = None" "ui booted = Some UIManager" "audio booted = Some AudioManager"
  "settings booted = Some SettingsManager" "multiplayer booted = Some MultiplayerManager"
  "workers booted = [worldGenerator \<mapsto> Worker ''js/workers/world-generator.js'',
      physics \<mapsto> Worker ''js/workers/physics-worker.js'',
      pathfinding \<mapsto> Worker ''js/workers/pathfinding.js'']"
  "lastTime booted = 0" "frameCount booted = 0" "fps booted = 0" "fpsUpdateTime booted = 0"
  "isInitialized booted = True" "isGameRunning booted = False" "frameQueue booted = 0"
  by (simp_all add: booted_def init_def constructed_def showLoadingScreen_def initWorkers_def
        setupEventListeners_def exec)

lemma in_menu_fields [simp]:
  "state in_menu = MENU" "canvas in_menu = None" "renderer in_menu = None" "world in_menu = None"
  "player in_menu = None" "ui in_menu = Some UIManager" "audio in_menu = Some AudioManager"
  "settings in_menu = Some SettingsManager" "multiplayer in_menu = Some MultiplayerManager"
  "workers in_menu = workers booted"
  "lastTime in_menu = 0" "frameCount in_menu = 0" "fps in_menu = 0" "fpsUpdateTime in_menu = 0"
  "isInitialized in_menu = True" "isGameRunning in_menu = False" "frameQueue in_menu = 0"
  by (simp_all add: in_menu_def loadingTimeout_def hideLoadingScreen_def setState_def
        setState_with_def returnToMenu_def exec)

subsection \<open>Sequences of statements\<close>

lemma block3_state: "state (snd (block [assign f, p, emit c] g)) = state (snd (p (f g)))"
proof (cases "p (f g)")
  case (Pair c' g')
  then show ?thesis by (cases c') (simp_all add: exec)
qed

lemma block3_normal:
  "fst (p (f g)) = Normal \<Longrightarrow> block [assign f, p, emit c] g
     = (Normal, (snd (p (f g)))\<lparr>trace := trace (snd (p (f g))) @ [c]\<rparr>)"
  by (cases "p (f g)") (simp add: exec)

lemma block_assign_head: "block (assign f # ps) g = block ps (f g)"
  by (simp add: block_Cons assign_def then_do_simps)

lemma block_append: "block (ps @ qs) g = then_do (block ps g) (block qs)"
proof (induction ps arbitrary: g)
  case Nil
  show ?case by (simp add: then_do_simps)
next
  case (Cons p ps)
  show ?case
  proof (cases "p g")
    case (Pair c g')
    then show ?thesis using Cons [of g'] by (cases c) (simp_all add: block_Cons then_do_simps)
  qed
qed

lemma keeps_then_do: "keeps f q \<Longrightarrow> f (snd (then_do r q)) = f (snd r)"
proof (cases r)
  case (Pair c g)
  assume "keeps f q"
  with Pair show ?thesis by (cases c) (simp_all add: then_do_simps keeps_def)
qed

lemma gameLoop_alt:
  "gameLoop e g0 = block [
       assign (\<lambda>g. g\<lparr>lastTime := loop_now e\<rparr>),
       assign (\<lambda>g. g\<lparr>frameCount := frameCount g + 1\<rparr>),
       cond (\<lambda>g. loop_now e - fpsUpdateTime g \<ge> 1000) (block [
         assign (\<lambda>g. g\<lparr>fps := frameCount g\<rparr>),
         assign (\<lambda>g. g\<lparr>frameCount := 0\<rparr>),
         assign (\<lambda>g. g\<lparr>fpsUpdateTime := loop_now e\<rparr>),
         on_settings e (settings_get ''showFPS''),
         cond (\<lambda>_. showFPS e) (\<lambda>g. on_ui e (updateFPS (fps g)) g)]),
       cond (\<lambda>g. world g \<noteq> None) (on_world e (update_world ((loop_now e - lastTime g0) / 1000))),
       cond (\<lambda>g. player g \<noteq> None) (on_player e (update_player ((loop_now e - lastTime g0) / 1000))),
       cond (\<lambda>g. renderer g \<noteq> None) (on_renderer e (render (loop_now e / 1000))),
       cond (\<lambda>g. ui g \<noteq> None) (on_ui e update_ui),
       cond isGameRunning (block [
         call e (Host requestAnimationFrame),
         assign (\<lambda>g. g\<lparr>frameQueue := frameQueue g + 1\<rparr>)])] (g0\<lparr>isGameRunning := True\<rparr>)"
proof -
  have r: "isGameRunning g0 \<Longrightarrow> g0\<lparr>isGameRunning := True\<rparr> = g0"
    by (cases g0) simp
  have eq: "(if \<not> isGameRunning g0 then g0\<lparr>isGameRunning := True\<rparr> else g0)
      = g0\<lparr>isGameRunning := True\<rparr>"
    using r by (cases "isGameRunning g0") simp_all
  show ?thesis unfolding gameLoop_def Let_def eq by simp
qed

subsection \<open>What the methods leave alone\<close>

lemma state_on:
  "keeps state (on_ui e a)" "keeps state (on_audio e b)" "keeps state (on_settings e s)"
  "keeps state (on_multiplayer e m)" "keeps state (on_renderer e r)" "keeps state (on_world e w)"
  "keeps state (on_player e pl)" "keeps state (\<lambda>g. on_ui e (a' g) g)"
  by (simp_all add: keeps_def call_def on_if)

lemma fixed_on:
  "keeps fixed (on_ui e a)" "keeps fixed (on_audio e b)" "keeps fixed (on_settings e s)"
  "keeps fixed (on_multiplayer e m)" "keeps fixed (on_renderer e r)" "keeps fixed (on_world e w)"
  "keeps fixed (on_player e pl)" "keeps fixed (\<lambda>g. on_ui e (a' g) g)"
  by (simp_all add: keeps_def call_def on_if fixed_def channels_def worker_effects_def)

lemma gameLoop_state: "keeps state (gameLoop e)"
  unfolding keeps_def
proof
  fix g :: game
  let ?g1 = "if \<not> isGameRunning g then g\<lparr>isGameRunning := True\<rparr> else g"
  have "\<exists>ps. gameLoop e g = block ps ?g1 \<and> (\<forall>p\<in>set ps. keeps state p)"
    unfolding gameLoop_def Let_def
    by (rule exI, rule conjI, rule refl) (auto intro!: keeps_intros state_on)
  then obtain ps where ps: "gameLoop e g = block ps ?g1" "\<forall>p\<in>set ps. keeps state p"
    by blast
  then have "keeps state (block ps)" by (auto intro: keeps_block)
  then show "state (snd (gameLoop e g)) = state g" using ps(1) by (simp add: keeps_def)
qed

lemma gameLoop_fixed: "keeps fixed (gameLoop e)"
  unfolding keeps_def
proof
  fix g :: game
  let ?g1 = "if \<not> isGameRunning g then g\<lparr>isGameRunning := True\<rparr> else g"
  have 1: "fixed ?g1 = fixed g" by (simp add: fixed_def channels_def)
  have "\<exists>ps. gameLoop e g = block ps ?g1 \<and> (\<forall>p\<in>set ps. keeps fixed p)"
    unfolding gameLoop_def Let_def
    by (rule exI, rule conjI, rule refl)
      (auto intro!: keeps_intros fixed_on simp: fixed_def channels_def worker_effects_def)
  then obtain ps where ps: "gameLoop e g = block ps ?g1" "\<forall>p\<in>set ps. keeps fixed p"
    by blast
  then have "keeps fixed (block ps)" by (auto intro: keeps_block)
  then show "fixed (snd (gameLoop e g)) = fixed g" using ps(1) 1 by (simp add: keeps_def)
qed

lemma returnToMenu_state: "keeps state (returnToMenu e)"
  unfolding returnToMenu_def by (auto intro!: keeps_intros state_on)

lemma pauseGame_state: "keeps state (pauseGame e)"
  unfolding pauseGame_def by (auto intro!: keeps_intros state_on)

lemma startSinglePlayer_try_state: "keeps state (startSinglePlayer_try e n sd t)"
  unfolding startSinglePlayer_try_def by (auto intro!: keeps_intros state_on gameLoop_state)

lemma startMultiplayer_try1_state: "keeps state (startMultiplayer_try1 e a)"
  unfolding startMultiplayer_try1_def by (auto intro!: keeps_intros state_on)

lemma startMultiplayer_try2_state: "keeps state (startMultiplayer_try2 e r)"
  unfolding startMultiplayer_try2_def by (auto intro!: keeps_intros state_on gameLoop_state)

lemma returnToMenu_fixed: "keeps fixed (returnToMenu e)"
  unfolding returnToMenu_def
  by (auto intro!: keeps_intros fixed_on simp: fixed_def channels_def worker_effects_def)

lemma pauseGame_fixed: "keeps fixed (pauseGame e)"
  unfolding pauseGame_def
  by (auto intro!: keeps_intros fixed_on simp: fixed_def channels_def worker_effects_def)

lemma resumeGame_fixed: "keeps fixed (resumeGame e)"
  unfolding resumeGame_def
  by (auto intro!: keeps_intros fixed_on gameLoop_fixed simp: fixed_def channels_def worker_effects_def)

lemma setState_with_fixed:
  "keeps fixed sp \<Longrightarrow> keeps fixed mp \<Longrightarrow> keeps fixed (setState_with sp mp e s)"
  unfolding setState_with_def
  by (cases s) (auto intro!: keeps_intros pauseGame_fixed returnToMenu_fixed
        simp: fixed_def channels_def worker_effects_def)

lemma start_catch_fixed: "keeps fixed (start_catch e msg)"
  unfolding start_catch_def setState_MENU_def showError_def
  by (auto intro!: keeps_intros fixed_on setState_with_fixed simp: fixed_def channels_def worker_effects_def)

lemma startSinglePlayer_try_fixed: "keeps fixed (startSinglePlayer_try e n sd t)"
  unfolding startSinglePlayer_try_def
  by (auto intro!: keeps_intros fixed_on gameLoop_fixed simp: fixed_def channels_def worker_effects_def)

lemma startMultiplayer_try1_fixed: "keeps fixed (startMultiplayer_try1 e a)"
  unfolding startMultiplayer_try1_def
  by (auto intro!: keeps_intros fixed_on simp: fixed_def channels_def worker_effects_def)

lemma startMultiplayer_try2_fixed: "keeps fixed (startMultiplayer_try2 e r)"
  unfolding startMultiplayer_try2_def
  by (auto intro!: keeps_intros fixed_on gameLoop_fixed simp: fixed_def channels_def worker_effects_def)

lemma startSinglePlayer_fixed: "keeps fixed (startSinglePlayer e n sd t)"
  unfolding startSinglePlayer_def
  by (intro keeps_async keeps_try_catch startSinglePlayer_try_fixed start_catch_fixed)

lemma startMultiplayer_fixed: "keeps fixed (startMultiplayer e a)"
  unfolding startMultiplayer_def
  by (intro keeps_async keeps_try_catch startMultiplayer_try1_fixed start_catch_fixed)

lemma startMultiplayer_resume_fixed: "keeps fixed (startMultiplayer_resume e r)"
  unfolding startMultiplayer_resume_def
  by (intro keeps_async keeps_try_catch startMultiplayer_try2_fixed start_catch_fixed)

lemma setState_fixed: "keeps fixed (setState e s)"
  unfolding setState_def
  by (intro setState_with_fixed startSinglePlayer_fixed startMultiplayer_fixed)

lemma frameTick_fixed: "keeps fixed (frameTick e)"
  using gameLoop_fixed [of e] by (simp add: keeps_def frameTick_def fixed_def channels_def)

lemma fixed_ui: "fixed g' = fixed g \<Longrightarrow> ui g' = ui g"
  and fixed_audio: "fixed g' = fixed g \<Longrightarrow> audio g' = audio g"
  and fixed_settings: "fixed g' = fixed g \<Longrightarrow> settings g' = settings g"
  and fixed_multiplayer: "fixed g' = fixed g \<Longrightarrow> multiplayer g' = multiplayer g"
  and fixed_channels: "fixed g' = fixed g \<Longrightarrow> channels g' = channels g"
  by (simp_all add: fixed_def)

subsection \<open>The mode after \<open>setState\<close>, in general\<close>

lemma setState_MENU_state: "state (snd (setState_MENU e g)) = MENU"
  by (simp add: setState_MENU_def setState_with_def block3_state keepsD [OF returnToMenu_state])

lemma setState_MENU_eq: "setState e MENU = setState_MENU e"
  by (simp add: setState_def setState_MENU_def setState_with_def)

lemma start_catch_state:
  "state (snd (start_catch e msg g)) = (if reported e msg g then MENU else state g)"
  by (simp add: start_catch_def showError_def reported_def exec setState_MENU_state)

lemma entry_state:
  assumes "keeps state body" "keeps fixed body"
  shows "state (snd (async (try_catch body (start_catch e msg)) g)) =
     (if fst (body g) \<noteq> Normal \<and> reported e msg g then MENU else state g)"
proof (cases "body g")
  case (Pair c g2)
  have s: "state g2 = state g" using assms(1) Pair by (metis keepsD snd_conv)
  have "fixed g2 = fixed g" using assms(2) Pair by (metis keepsD snd_conv)
  then have "ui g2 = ui g" by (rule fixed_ui)
  then have r: "reported e msg g2 = reported e msg g" by (simp add: reported_def)
  show ?thesis using Pair s r
    by (cases c) (simp_all add: async_def try_catch_alt catch_do_simps start_catch_state)
qed

lemma setState_state:
  "state (snd (setState e s g)) = (if entry_fell_back e s g then MENU else s)"
proof (cases s)
  case LOADING
  then show ?thesis by (simp add: setState_def setState_with_def entry_fell_back_def exec)
next
  case MENU
  then show ?thesis by (simp add: setState_MENU_eq setState_MENU_state entry_fell_back_def)
next
  case PAUSED
  then show ?thesis
    by (simp add: setState_def setState_with_def block3_state keepsD [OF pauseGame_state]
          entry_fell_back_def)
next
  case SINGLE_PLAYER
  then show ?thesis
    by (simp add: setState_def setState_with_def block3_state startSinglePlayer_def
          entry_fell_back_def reported_def
          entry_state [OF startSinglePlayer_try_state startSinglePlayer_try_fixed])
next
  case MULTIPLAYER
  then show ?thesis
    by (simp add: setState_def setState_with_def block3_state startMultiplayer_def
          entry_fell_back_def reported_def
          entry_state [OF startMultiplayer_try1_state startMultiplayer_try1_fixed])
qed

lemma setStates_snoc: "setStates (rs @ [(e, s)]) g = snd (setState e s (setStates rs g))"
  by (simp add: setStates_def)

subsection \<open>More concrete states, field by field\<close>

lemma broken_simps [simp]:
  "throws broken c = (c = OnWorld new_World)" "performance_now broken = 5000"
  "loop_now broken = 5000" "isMobile broken = False" "showFPS broken = True"
  "serverSpawn broken = \<lparr>pt_x = 8, pt_y = 70, pt_z = 8\<rparr>"
  "worldSpawn broken = \<lparr>pt_x = 0, pt_y = 64, pt_z = 0\<rparr>"
  by (simp_all add: broken_def)

lemma in_game_fields [simp]:
  "state in_game = SINGLE_PLAYER"
  "renderer in_game = Some (Renderer (Some ''game-canvas'') (Some SettingsManager))"
  "world in_game = Some \<lparr>w_worldSize = (10000, 10000, 256), w_chunkSize = 16, w_seed = None,
      w_type = ''default'', w_generator = Some (Worker ''js/workers/world-generator.js'')\<rparr>"
  "player in_game = Some \<lparr>p_x = 0, p_y = 64, p_z = 0, p_settings = Some SettingsManager\<rparr>"
  "ui in_game = Some UIManager" "audio in_game = Some AudioManager"
  "settings in_game = Some SettingsManager" "multiplayer in_game = Some MultiplayerManager"
  "lastTime in_game = 5000" "frameCount in_game = 0" "fps in_game = 1"
  "fpsUpdateTime in_game = 5000" "isGameRunning in_game = True" "frameQueue in_game = 1"
  by (simp_all add: in_game_def setState_def setState_with_def startSinglePlayer_def
        startSinglePlayer_try_def gameLoop_def Let_def worldSize_def chunkSize_def exec)

lemma paused_fields [simp]:
  "state paused = PAUSED" "renderer paused = renderer in_game" "world paused = world in_game"
  "player paused = player in_game" "ui paused = Some UIManager" "audio paused = Some AudioManager"
  "settings paused = Some SettingsManager"
  "lastTime paused = 5000" "frameCount paused = 0" "fps paused = 1"
  "fpsUpdateTime paused = 5000" "isGameRunning paused = True" "frameQueue paused = 1"
  "trace paused = trace in_game @ [OnUI showPauseMenu, OnAudio pauseMusic, Console_log, Console_log]"
  by (simp_all add: paused_def setState_def setState_with_def pauseGame_def exec)

lemma awaiting_fields [simp]:
  "state awaiting = MULTIPLAYER"
  "renderer awaiting = Some (Renderer (Some ''game-canvas'') (Some SettingsManager))"
  "world awaiting = None" "player awaiting = None"
  "ui awaiting = Some UIManager" "audio awaiting = Some AudioManager"
  "settings awaiting = Some SettingsManager" "multiplayer awaiting = Some MultiplayerManager"
  "isGameRunning awaiting = False" "frameQueue awaiting = 0"
  by (simp_all add: awaiting_def setState_def setState_with_def startMultiplayer_def
        startMultiplayer_try1_def exec)

section \<open>Claims\<close>

subsection \<open>C1: the mode after a sequence of \<open>setState\<close> requests\<close>

text \<open>
  Counterexample to claim C1 as stated. After start-up the mode is \<open>LOADING\<close>; the spec
  lists no transition from Loading to Paused and says such a request leaves the mode
  unchanged. \<open>setState(GameState.PAUSED)\<close> completes normally there and the mode is
  \<open>PAUSED\<close>: \<open>setState\<close> assigns \<open>this.state\<close> before anything else and consults no
  transition table.
\<close>

theorem loading_to_paused_not_ignored:
  "state booted = LOADING \<and> fst (setState calm PAUSED booted) = Normal
     \<and> state (snd (setState calm PAUSED booted)) \<noteq> state booted"
  by (simp add: setState_def setState_with_def pauseGame_def exec)

text \<open>
  Claim C1, as amended: \<open>setState\<close> checks no transition table. After any sequence of
  \<open>setState\<close> requests the current mode is the target of the last request, whatever the
  mode it was issued in, except when that target is \<open>SINGLE_PLAYER\<close> or \<open>MULTIPLAYER\<close>
  and the entry method failed before \<open>setState\<close> returned and reported the error, in which
  case its \<open>catch\<close> block has set the mode to \<open>MENU\<close>.
\<close>

theorem setStates_last_request:
  "state (setStates (rs @ [(e, s)]) g) = (if entry_fell_back e s (setStates rs g) then MENU else s)"
  by (simp add: setStates_snoc setState_state)

theorem setStates_last_request_witness:
  "entry_fell_back broken SINGLE_PLAYER (setStates [(calm, MENU)] booted)
   \<and> state (setStates ([(calm, MENU)] @ [(broken, SINGLE_PLAYER)]) booted) = MENU
   \<and> \<not> entry_fell_back calm PAUSED (setStates [] booted)
   \<and> state (setStates ([] @ [(calm, PAUSED)]) booted) = PAUSED"
proof -
  have 1: "entry_fell_back broken SINGLE_PLAYER (setStates [(calm, MENU)] booted)"
    by (simp add: entry_fell_back_def reported_def setStates_def startSinglePlayer_try_def
          setState_def setState_with_def returnToMenu_def exec)
  have 2: "\<not> entry_fell_back calm PAUSED (setStates [] booted)"
    by (simp add: entry_fell_back_def)
  show ?thesis
    using 1 2 setStates_last_request [where rs = "[(calm, MENU)]" and e = broken
        and s = SINGLE_PLAYER and g = booted]
      setStates_last_request [where rs = "[]" and e = calm and s = PAUSED and g = booted]
    by simp
qed

subsection \<open>C2: a worker message with no live World\<close>

text \<open>
  Claim C2 says that a \<open>chunkGenerated\<close>, \<open>physicsUpdate\<close> or \<open>pathFound\<close> message that
  arrives while no World exists is dropped without a fault. The handlers call
  \<open>this.world.receive...\<close> with no test of \<open>this.world\<close>: at the menu, and after start-up
  before any session, \<open>this.world\<close> is \<open>null\<close> and each handler throws a TypeError. The
  controller's state is left as it was.
\<close>

theorem stale_worker_message_throws:
  "onmessage calm worldGenerator \<lparr>m_type = ''chunkGenerated'', m_payload = 7\<rparr> in_menu
     = (Throw TypeError, in_menu)
   \<and> onmessage calm physics \<lparr>m_type = ''physicsUpdate'', m_payload = 7\<rparr> in_menu
     = (Throw TypeError, in_menu)
   \<and> onmessage calm pathfinding \<lparr>m_type = ''pathFound'', m_payload = 7\<rparr> in_menu
     = (Throw TypeError, in_menu)
   \<and> onmessage calm worldGenerator \<lparr>m_type = ''chunkGenerated'', m_payload = 7\<rparr> booted
     = (Throw TypeError, booted)"
  by (simp add: onmessage_def worldGenerator_onmessage_def physics_onmessage_def
        pathfinding_onmessage_def cond_def on_if)

subsection \<open>C3: pausing and the frame loop\<close>

text \<open>
  Claim C3 says that pausing stops the frame loop until a resume restarts it. In the state
  reached by entering single-player from the menu and then requesting \<open>PAUSED\<close>, the mode
  is \<open>PAUSED\<close> and the session objects are untouched, but \<open>pauseGame\<close> does not clear
  \<open>isGameRunning\<close>: the frame callback queued before the pause runs a full pass (world,
  player, renderer and UI are updated) and queues the next one. \<open>resumeGame\<close> then calls
  \<open>gameLoop\<close> once more, so two callbacks are queued, and it leaves the mode \<open>PAUSED\<close>.
\<close>

theorem frames_continue_while_paused:
  "state paused = PAUSED \<and> isGameRunning paused \<and> frameQueue paused = 1
   \<and> fst (frameTick (calm\<lparr>loop_now := 5016\<rparr>) paused) = Normal
   \<and> trace (snd (frameTick (calm\<lparr>loop_now := 5016\<rparr>) paused)) = trace paused @
        [OnWorld (update_world (2 / 125)), OnPlayer (update_player (2 / 125)),
         OnRenderer (render (627 / 125)), OnUI update_ui, Host requestAnimationFrame]
   \<and> frameQueue (snd (frameTick (calm\<lparr>loop_now := 5016\<rparr>) paused)) = 1
   \<and> state (snd (resumeGame calm paused)) = PAUSED
   \<and> frameQueue (snd (resumeGame calm paused)) = 2"
  by (simp add: frameTick_def resumeGame_def gameLoop_def Let_def exec)

subsection \<open>C4: a failed session entry\<close>

lemma start_catch_post:
  assumes "ui g \<noteq> None" "audio g \<noteq> None" "recovery_ok e msg"
  shows "fallen_back msg g (snd (start_catch e msg g))"
  using assms
  by (simp add: fallen_back_def recovery_ok_def start_catch_def showError_def setState_MENU_def
        setState_with_def returnToMenu_def exec)

lemma entry_fails:
  assumes "keeps fixed body" "fst (body g) \<noteq> Normal" "ui g \<noteq> None" "audio g \<noteq> None"
    "recovery_ok e msg"
  shows "fallen_back msg (snd (body g)) (snd (async (try_catch body (start_catch e msg)) g))"
proof (cases "body g")
  case (Pair c g2)
  have "fixed g2 = fixed g" using assms(1) Pair by (metis keepsD snd_conv)
  then have "ui g2 \<noteq> None" "audio g2 \<noteq> None"
    using assms(3,4) by (simp_all add: fixed_def)
  then have "fallen_back msg g2 (snd (start_catch e msg g2))"
    using assms(5) by (rule start_catch_post)
  moreover obtain x where "c = Throw x" using assms(2) Pair by (cases c) simp_all
  ultimately show ?thesis using Pair
    by (simp add: async_def try_catch_alt catch_do_simps)
qed

text \<open>
  Counterexample to claim C4 as stated. From the menu, \<open>setState(MULTIPLAYER)\<close> constructs
  the Renderer and awaits the connection; the connection succeeds, the Player is constructed,
  and the World's constructor throws. The \<open>catch\<close> block falls back to \<open>MENU\<close> and disposes
  the Renderer, but \<open>this.player\<close> still refers to the Player constructed before the
  failure: \<open>returnToMenu\<close> clears \<open>this.renderer\<close> and \<open>this.world\<close> only.
\<close>

theorem failed_entry_leaves_player:
  "fst (startMultiplayer_try2 broken True awaiting) \<noteq> Normal
   \<and> state (snd (startMultiplayer_resume broken True awaiting)) = MENU
   \<and> renderer (snd (startMultiplayer_resume broken True awaiting)) = None
   \<and> player (snd (startMultiplayer_resume broken True awaiting))
        = Some \<lparr>p_x = 8, p_y = 70, p_z = 8, p_settings = Some SettingsManager\<rparr>"
  by (simp add: startMultiplayer_resume_def startMultiplayer_try2_def start_catch_def
        showError_def setState_MENU_def setState_with_def returnToMenu_def exec)

text \<open>
  Claim C4, as amended: when a session entry fails (the \<open>try\<close> block of
  \<open>startSinglePlayer\<close> throws, the part of \<open>startMultiplayer\<close> before the \<open>await\<close> throws,
  or its continuation throws, in particular because the connection was rejected) and the
  calls of the recovery path itself complete, then the mode is \<open>MENU\<close>, the UI has received
  the error message, the frame-loop flag is cleared, a Renderer or World that had been
  constructed has been disposed and both references are \<open>null\<close>. The Player reference is
  not cleared: it is what it was when the failure occurred.
\<close>

theorem failed_entry_falls_back:
  assumes "ui g \<noteq> None" and "audio g \<noteq> None"
    and "recovery_ok e ''Failed to start game. Please try again.''"
    and "recovery_ok e ''Failed to connect to server. Please try again.''"
  shows "(fst (startSinglePlayer_try e n sd t g) \<noteq> Normal \<longrightarrow>
            fallen_back ''Failed to start game. Please try again.''
              (snd (startSinglePlayer_try e n sd t g)) (snd (startSinglePlayer e n sd t g)))
       \<and> (fst (startMultiplayer_try1 e a g) \<noteq> Normal \<longrightarrow>
            fallen_back ''Failed to connect to server. Please try again.''
              (snd (startMultiplayer_try1 e a g)) (snd (startMultiplayer e a g)))
       \<and> (fst (startMultiplayer_try2 e r g) \<noteq> Normal \<longrightarrow>
            fallen_back ''Failed to connect to server. Please try again.''
              (snd (startMultiplayer_try2 e r g)) (snd (startMultiplayer_resume e r g)))
       \<and> fallen_back ''Failed to connect to server. Please try again.''
              g (snd (startMultiplayer_resume e False g))"
proof -
  have rej: "startMultiplayer_try2 e False g = (Throw Rejected, g)"
    by (simp add: startMultiplayer_try2_def exec)
  have "fallen_back ''Failed to connect to server. Please try again.''
          (snd (startMultiplayer_try2 e False g)) (snd (startMultiplayer_resume e False g))"
    unfolding startMultiplayer_resume_def
    using assms rej by (intro entry_fails startMultiplayer_try2_fixed) simp_all
  then show ?thesis
    unfolding startSinglePlayer_def startMultiplayer_def startMultiplayer_resume_def
    using assms rej
    by (auto intro!: entry_fails startSinglePlayer_try_fixed startMultiplayer_try1_fixed
          startMultiplayer_try2_fixed)
qed

theorem failed_entry_falls_back_witness:
  "ui awaiting \<noteq> None \<and> audio awaiting \<noteq> None
   \<and> recovery_ok broken ''Failed to start game. Please try again.''
   \<and> recovery_ok broken ''Failed to connect to server. Please try again.''
   \<and> fst (startMultiplayer_try2 broken True awaiting) \<noteq> Normal
   \<and> fallen_back ''Failed to connect to server. Please try again.''
        (snd (startMultiplayer_try2 broken True awaiting))
        (snd (startMultiplayer_resume broken True awaiting))
   \<and> fallen_back ''Failed to connect to server. Please try again.''
        awaiting (snd (startMultiplayer_resume broken False awaiting))"
proof -
  have h: "ui awaiting \<noteq> None" "audio awaiting \<noteq> None"
    "recovery_ok broken ''Failed to start game. Please try again.''"
    "recovery_ok broken ''Failed to connect to server. Please try again.''"
    by (simp_all add: recovery_ok_def)
  have f: "fst (startMultiplayer_try2 broken True awaiting) \<noteq> Normal"
    by (simp add: startMultiplayer_try2_def exec)
  show ?thesis
    using h f failed_entry_falls_back [OF h, where r = True]
    by simp
qed

subsection \<open>C5: starting a single-player session with a seed\<close>

lemma startSinglePlayer_quiet:
  assumes "quiet e" "ui g \<noteq> None" "audio g \<noteq> None" "settings g \<noteq> None"
  shows "state (snd (startSinglePlayer e n sd t g)) = state g
     \<and> world (snd (startSinglePlayer e n sd t g)) = Some \<lparr>w_worldSize = worldSize,
          w_chunkSize = chunkSize, w_seed = sd, w_type = t,
          w_generator = workers g worldGenerator\<rparr>
     \<and> player (snd (startSinglePlayer e n sd t g)) = Some \<lparr>p_x = pt_x (worldSpawn e),
          p_y = pt_y (worldSpawn e), p_z = pt_z (worldSpawn e), p_settings = settings g\<rparr>
     \<and> isGameRunning (snd (startSinglePlayer e n sd t g))
     \<and> frameQueue (snd (startSinglePlayer e n sd t g)) = frameQueue g + 1
     \<and> (\<exists>cs. trace (snd (startSinglePlayer e n sd t g)) = trace g @ cs
            \<and> OnRenderer (render (loop_now e / 1000)) \<in> set cs)"
proof -
  have q: "\<And>c. throws e c = False" using assms(1) by (simp add: quiet_def)
  show ?thesis
    using assms(2-4)
    apply (simp add: startSinglePlayer_def startSinglePlayer_try_def gameLoop_alt q exec
        split del: if_split)
    apply ((split if_split, intro conjI impI; simp add: q exec split del: if_split)+)?
    done
qed

text \<open>
  Counterexample to claim C5 as stated. The controller has two ways to start a single-player
  session from the menu, and neither does all the claim says. \<open>startSinglePlayer\<close> called
  with seed 42 constructs the World with that seed but never writes \<open>this.state\<close>: the
  mode is still \<open>MENU\<close>. \<open>setState(SINGLE_PLAYER)\<close> sets the mode but calls
  \<open>this.startSinglePlayer()\<close> with no arguments: the World's seed is \<open>null\<close>.
\<close>

theorem seeded_start_counterexample:
  "state (snd (startSinglePlayer calm None (Some 42) ''default'' in_menu)) \<noteq> SINGLE_PLAYER
   \<and> map_option w_seed (world (snd (setState calm SINGLE_PLAYER in_menu))) \<noteq> Some (Some 42)"
proof -
  have "quiet calm" by (simp add: quiet_def)
  then have "state (snd (startSinglePlayer calm None (Some 42) ''default'' in_menu)) = MENU"
    using startSinglePlayer_quiet [of calm in_menu None "Some 42" "''default''"] by simp
  moreover have "world (snd (setState calm SINGLE_PLAYER in_menu)) = world in_game"
    by (simp add: in_game_def)
  ultimately show ?thesis by simp
qed

text \<open>
  Claim C5, as amended: when no collaborator call throws, \<open>startSinglePlayer(name, seed,
  type)\<close> constructs the World with that seed and type, constructs the Player at the
  World's spawn point, runs a first frame pass and queues the next one, and leaves the mode
  as it was; \<open>setState(SINGLE_PLAYER)\<close> sets the mode to \<open>SINGLE_PLAYER\<close> and starts the
  session in the same way with the default arguments, so with seed \<open>null\<close> and type
  \<open>'default'\<close>.
\<close>

theorem single_player_entry:
  assumes "quiet e" and "ui g \<noteq> None" and "audio g \<noteq> None" and "settings g \<noteq> None"
  shows "(let g' = snd (startSinglePlayer e n (Some seed) t g) in
            state g' = state g
          \<and> world g' = Some \<lparr>w_worldSize = worldSize, w_chunkSize = chunkSize,
               w_seed = Some seed, w_type = t, w_generator = workers g worldGenerator\<rparr>
          \<and> player g' = Some \<lparr>p_x = pt_x (worldSpawn e), p_y = pt_y (worldSpawn e),
               p_z = pt_z (worldSpawn e), p_settings = settings g\<rparr>
          \<and> isGameRunning g' \<and> frameQueue g' = frameQueue g + 1
          \<and> (\<exists>cs. trace g' = trace g @ cs \<and> OnRenderer (render (loop_now e / 1000)) \<in> set cs))
       \<and> (let g' = snd (setState e SINGLE_PLAYER g) in
            state g' = SINGLE_PLAYER
          \<and> world g' = Some \<lparr>w_worldSize = worldSize, w_chunkSize = chunkSize,
               w_seed = None, w_type = ''default'', w_generator = workers g worldGenerator\<rparr>
          \<and> player g' = Some \<lparr>p_x = pt_x (worldSpawn e), p_y = pt_y (worldSpawn e),
               p_z = pt_z (worldSpawn e), p_settings = settings g\<rparr>
          \<and> isGameRunning g' \<and> frameQueue g' = frameQueue g + 1
          \<and> (\<exists>cs. trace g' = trace g @ cs \<and> OnRenderer (render (loop_now e / 1000)) \<in> set cs))"
proof -
  let ?p = "startSinglePlayer e None None ''default''"
  let ?g1 = "g\<lparr>state := SINGLE_PLAYER\<rparr>"
  have "fst (?p ?g1) = Normal" by (simp add: startSinglePlayer_def async_def)
  then have a: "setState e SINGLE_PLAYER g
      = (Normal, (snd (?p ?g1))\<lparr>trace := trace (snd (?p ?g1)) @ [Console_log]\<rparr>)"
    by (simp add: setState_def setState_with_def block3_normal)
  show ?thesis
    using startSinglePlayer_quiet [OF assms, of n "Some seed" t]
      startSinglePlayer_quiet [OF assms(1), of ?g1 None None "''default''"] assms(2-4)
    by (auto simp: Let_def a)
qed

theorem single_player_entry_witness:
  "quiet calm \<and> ui in_menu \<noteq> None \<and> audio in_menu \<noteq> None \<and> settings in_menu \<noteq> None
   \<and> state (snd (startSinglePlayer calm None (Some 42) ''default'' in_menu)) = MENU
   \<and> map_option w_seed (world (snd (startSinglePlayer calm None (Some 42) ''default'' in_menu)))
        = Some (Some 42)
   \<and> player (snd (startSinglePlayer calm None (Some 42) ''default'' in_menu))
        = Some \<lparr>p_x = 0, p_y = 64, p_z = 0, p_settings = Some SettingsManager\<rparr>
   \<and> frameQueue (snd (startSinglePlayer calm None (Some 42) ''default'' in_menu)) = 1
   \<and> state (snd (setState calm SINGLE_PLAYER in_menu)) = SINGLE_PLAYER
   \<and> map_option w_seed (world (snd (setState calm SINGLE_PLAYER in_menu))) = Some None"
proof -
  have h: "quiet calm" "ui in_menu \<noteq> None" "audio in_menu \<noteq> None" "settings in_menu \<noteq> None"
    by (simp_all add: quiet_def)
  show ?thesis
    using h single_player_entry [OF h, where n = None and seed = 42 and t = "''default''"]
    by (simp add: Let_def)
qed

subsection \<open>C6: the FPS figure\<close>

lemma fps_updates_append: "fps_updates (xs @ ys) = fps_updates xs @ fps_updates ys"
  by (induction xs rule: fps_updates.induct) simp_all

lemma fps_view_on:
  "keeps fps_view (on_audio e b)" "keeps fps_view (on_settings e s)"
  "keeps fps_view (on_multiplayer e m)" "keeps fps_view (on_renderer e r)"
  "keeps fps_view (on_world e w)" "keeps fps_view (on_player e pl)"
  "keeps fps_view (on_ui e update_ui)"
  by (simp_all add: keeps_def call_def on_if fps_view_def fps_updates_append)

lemma gameLoop_fps:
  "fps_view (snd (gameLoop e g)) =
     (fps_updates (trace g) @ (if fps_due e g then [frameCount g + 1] else []),
      if loop_now e - fpsUpdateTime g \<ge> 1000 then loop_now e else fpsUpdateTime g)"
proof -
  let ?head = "[
       assign (\<lambda>g. g\<lparr>lastTime := loop_now e\<rparr>),
       assign (\<lambda>g. g\<lparr>frameCount := frameCount g + 1\<rparr>),
       cond (\<lambda>g. loop_now e - fpsUpdateTime g \<ge> 1000) (block [
         assign (\<lambda>g. g\<lparr>fps := frameCount g\<rparr>),
         assign (\<lambda>g. g\<lparr>frameCount := 0\<rparr>),
         assign (\<lambda>g. g\<lparr>fpsUpdateTime := loop_now e\<rparr>),
         on_settings e (settings_get ''showFPS''),
         cond (\<lambda>_. showFPS e) (\<lambda>g. on_ui e (updateFPS (fps g)) g)])]"
  let ?tail = "[
       cond (\<lambda>g. world g \<noteq> None) (on_world e (update_world ((loop_now e - lastTime g) / 1000))),
       cond (\<lambda>g. player g \<noteq> None) (on_player e (update_player ((loop_now e - lastTime g) / 1000))),
       cond (\<lambda>g. renderer g \<noteq> None) (on_renderer e (render (loop_now e / 1000))),
       cond (\<lambda>g. ui g \<noteq> None) (on_ui e update_ui),
       cond isGameRunning (block [
         call e (Host requestAnimationFrame),
         assign (\<lambda>g. g\<lparr>frameQueue := frameQueue g + 1\<rparr>)])]"
  have "gameLoop e g = block (?head @ ?tail) (g\<lparr>isGameRunning := True\<rparr>)"
    by (simp add: gameLoop_alt)
  moreover have "keeps fps_view (block ?tail)"
    by (auto intro!: keeps_intros fps_view_on simp: fps_view_def fps_updates_append)
  ultimately have "fps_view (snd (gameLoop e g))
      = fps_view (snd (block ?head (g\<lparr>isGameRunning := True\<rparr>)))"
    by (simp only: block_append keeps_then_do)
  also have "\<dots> = (fps_updates (trace g) @ (if fps_due e g then [frameCount g + 1] else []),
      if loop_now e - fpsUpdateTime g \<ge> 1000 then loop_now e else fpsUpdateTime g)"
    by (simp add: fps_view_def fps_due_def fps_updates_append exec)
  finally show ?thesis .
qed

lemma fps_times_Cons:
  "fps_times (e # es) g
     = (if fps_due e g then [loop_now e] else []) @ fps_times es (snd (gameLoop e g))"
  using gameLoop_fps [of e g] by (simp add: fps_view_def)

lemma fps_anchor_mono: "fpsUpdateTime g \<le> fpsUpdateTime (snd (gameLoop e g))"
  using gameLoop_fps [of e g] by (simp add: fps_view_def split: if_splits)

lemma fps_times_bound: "t \<in> set (fps_times es g) \<Longrightarrow> fpsUpdateTime g + 1000 \<le> t"
proof (induction es arbitrary: g)
  case Nil
  then show ?case by simp
next
  case (Cons e es)
  from Cons.prems have "fps_due e g \<and> t = loop_now e \<or> t \<in> set (fps_times es (snd (gameLoop e g)))"
    by (auto simp: fps_times_Cons simp del: fps_times.simps split: if_splits)
  then show ?case
  proof
    assume "fps_due e g \<and> t = loop_now e"
    then show ?thesis by (simp add: fps_due_def)
  next
    assume "t \<in> set (fps_times es (snd (gameLoop e g)))"
    then have "fpsUpdateTime (snd (gameLoop e g)) + 1000 \<le> t" by (rule Cons.IH)
    with fps_anchor_mono [of g e] show ?thesis by simp
  qed
qed

lemma fps_times_sorted: "sorted_wrt (\<lambda>a b. a + 1000 \<le> b) (fps_times es g)"
proof (induction es arbitrary: g)
  case Nil
  show ?case by simp
next
  case (Cons e es)
  show ?case
  proof (cases "fps_due e g")
    case True
    then have "fpsUpdateTime (snd (gameLoop e g)) = loop_now e"
      using gameLoop_fps [of e g] by (simp add: fps_view_def fps_due_def)
    then have "\<forall>t\<in>set (fps_times es (snd (gameLoop e g))). loop_now e + 1000 \<le> t"
      using fps_times_bound [of _ es "snd (gameLoop e g)"] by simp
    with True Cons.IH show ?thesis
      by (simp add: fps_times_Cons del: fps_times.simps)
  next
    case False
    with Cons.IH show ?thesis by (simp add: fps_times_Cons del: fps_times.simps)
  qed
qed

text \<open>
  Claim C6: the frame loop hands the FPS figure to the UI once for each one-second window
  that it finds elapsed, never twice within a window, and only when the display option is
  on. In one pass \<open>ui.updateFPS\<close> is called once when at least 1000 ms have passed since
  the window's start \<open>fpsUpdateTime\<close>, \<open>settings.get('showFPS')\<close> is truthy and both
  collaborators answer (the figure is the number of passes counted since the last sample),
  and not at all otherwise; when it is called the new window starts at that pass; a pass
  before the 1000 ms are over makes no call and leaves the window's start alone. So over any
  run of passes, however many, two calls of \<open>ui.updateFPS\<close> are at least 1000 ms apart.
\<close>

theorem fps_once_per_window:
  "fps_updates (trace (snd (gameLoop e g)))
      = fps_updates (trace g) @ (if fps_due e g then [frameCount g + 1] else [])
   \<and> (fps_due e g \<longrightarrow> showFPS e \<and> fpsUpdateTime g + 1000 \<le> loop_now e
         \<and> fpsUpdateTime (snd (gameLoop e g)) = loop_now e)
   \<and> (loop_now e < fpsUpdateTime g + 1000 \<longrightarrow> \<not> fps_due e g
         \<and> fpsUpdateTime (snd (gameLoop e g)) = fpsUpdateTime g)
   \<and> sorted_wrt (\<lambda>a b. a + 1000 \<le> b) (fps_times es g)"
  using gameLoop_fps [of e g] fps_times_sorted [of es g]
  by (auto simp: fps_view_def fps_due_def)

theorem fps_once_per_window_witness:
  "fps_due calm in_menu
   \<and> fps_updates (trace (snd (gameLoop calm in_menu))) = fps_updates (trace in_menu) @ [1]
   \<and> fpsUpdateTime (snd (gameLoop calm in_menu)) = 5000
   \<and> loop_now (calm\<lparr>loop_now := 5016\<rparr>) < fpsUpdateTime in_game + 1000
   \<and> fps_updates (trace (snd (gameLoop (calm\<lparr>loop_now := 5016\<rparr>) in_game)))
        = fps_updates (trace in_game)
   \<and> fpsUpdateTime (snd (gameLoop (calm\<lparr>loop_now := 5016\<rparr>) in_game)) = 5000"
proof -
  have 1: "fps_due calm in_menu" by (simp add: fps_due_def)
  have 2: "loop_now (calm\<lparr>loop_now := 5016\<rparr>) < fpsUpdateTime in_game + 1000" by simp
  show ?thesis
    using 1 2 fps_once_per_window [where e = calm and g = in_menu]
      fps_once_per_window [where e = "calm\<lparr>loop_now := 5016\<rparr>" and g = in_game]
    by simp
qed

subsection \<open>C7: saving\<close>

text \<open>
  Claim C7: \<open>saveGame\<close>, called with a live World and Player (and with collaborators whose
  \<open>save()\<close> methods return their snapshots), hands \<open>StorageManager.saveGame\<close> exactly one
  record: its world, player and settings fields are the three snapshots, none of them
  \<open>null\<close>, and its timestamp is the \<open>Date.now()\<close> read inside the call, hence not before
  the call. When the storage promise rejects, the \<open>catch\<close> callback logs the error and
  gives the UI the message \<open>'Failed to save game.'\<close>; nothing else of the controller changes,
  the mode in particular, and the callback completes normally, so no fault reaches the caller
  or the frame loop.
\<close>

theorem save_hands_over_snapshots:
  assumes "world g \<noteq> None" and "player g \<noteq> None" and "settings g \<noteq> None"
    and "ui g \<noteq> None" and "quiet e"
    and "worldSnap e \<noteq> None" and "playerSnap e \<noteq> None" and "settingsSnap e \<noteq> None"
  shows "(let r = \<lparr>sr_world = worldSnap e, sr_player = playerSnap e,
                   sr_settings = settingsSnap e, sr_timestamp = Date_now e\<rparr>;
              g' = g\<lparr>trace := trace g @ [OnWorld world_save, OnPlayer player_save,
                      OnSettings settings_save, OnStorage (storage_saveGame r)]\<rparr>
          in saveGame e g = (Normal, g')
           \<and> sr_world r \<noteq> None \<and> sr_player r \<noteq> None \<and> sr_settings r \<noteq> None
           \<and> call_time e \<le> sr_timestamp r
           \<and> saveGame_settled e False g'
                = (Normal, g'\<lparr>trace := trace g' @
                     [Console_error, OnUI (ui_showError ''Failed to save game.'')]\<rparr>)
           \<and> state (snd (saveGame_settled e False g')) = state g)
       \<and> fst (saveGame_settled e resolved g) = Normal"
  using assms
  by (simp add: Let_def saveGame_def saveGame_settled_def Date_now_def quiet_def exec)

theorem save_hands_over_snapshots_witness:
  "world in_game \<noteq> None \<and> player in_game \<noteq> None \<and> settings in_game \<noteq> None
   \<and> ui in_game \<noteq> None \<and> quiet calm
   \<and> worldSnap calm \<noteq> None \<and> playerSnap calm \<noteq> None \<and> settingsSnap calm \<noteq> None
   \<and> trace (snd (saveGame calm in_game)) = trace in_game @
        [OnWorld world_save, OnPlayer player_save, OnSettings settings_save,
         OnStorage (storage_saveGame \<lparr>sr_world = Some \<lparr>ws_name = Some ''w'', ws_seed = Some 42,
            ws_type = Some ''default''\<rparr>, sr_player = Some 1, sr_settings = Some 2,
            sr_timestamp = 103\<rparr>)]
   \<and> state (snd (saveGame_settled calm False (snd (saveGame calm in_game)))) = SINGLE_PLAYER
   \<and> fst (saveGame_settled calm False (snd (saveGame calm in_game))) = Normal"
proof -
  have h: "world in_game \<noteq> None" "player in_game \<noteq> None" "settings in_game \<noteq> None"
    "ui in_game \<noteq> None" "quiet calm"
    "worldSnap calm \<noteq> None" "playerSnap calm \<noteq> None" "settingsSnap calm \<noteq> None"
    by (simp_all add: quiet_def)
  show ?thesis
    using h save_hands_over_snapshots [OF h, where resolved = False]
    by (simp add: Let_def Date_now_def)
qed

subsection \<open>C8: loading a record that does not exist\<close>

text \<open>
  Claim C8: when the promise of \<open>StorageManager.loadGame(id)\<close> resolves to no record, the
  callback changes no field of the controller (no Renderer, World or Player is created,
  replaced or disposed, and the mode stays), it completes normally, the only calls it can
  make are error reports, and, the UI being there and accepting the call, it makes exactly
  one: \<open>ui.showError('Save file not found.')\<close>.
\<close>

theorem load_of_missing_record:
  "(snd (loadGame_settled e (Resolves None) g))\<lparr>trace := trace g\<rparr> = g
   \<and> fst (loadGame_settled e (Resolves None) g) = Normal
   \<and> (\<exists>cs. trace (snd (loadGame_settled e (Resolves None) g)) = trace g @ cs
         \<and> set cs \<subseteq> {OnUI (ui_showError ''Save file not found.''), Console_error,
                      OnUI (ui_showError ''Failed to load game.'')})
   \<and> (ui g \<noteq> None \<and> \<not> throws e (OnUI (ui_showError ''Save file not found.'')) \<longrightarrow>
        loadGame_settled e (Resolves None) g
          = (Normal, g\<lparr>trace := trace g @ [OnUI (ui_showError ''Save file not found.'')]\<rparr>))"
  by (simp add: loadGame_settled_def loadGame_then_def exec)

theorem load_of_missing_record_witness:
  "ui in_menu \<noteq> None \<and> \<not> throws calm (OnUI (ui_showError ''Save file not found.''))
   \<and> loadGame_settled calm (Resolves None) in_menu
        = (Normal, in_menu\<lparr>trace := trace in_menu @ [OnUI (ui_showError ''Save file not found.'')]\<rparr>)
   \<and> renderer (snd (loadGame_settled calm (Resolves None) in_menu)) = None
   \<and> world (snd (loadGame_settled calm (Resolves None) in_menu)) = None
   \<and> player (snd (loadGame_settled calm (Resolves None) in_menu)) = None"
  using load_of_missing_record [where e = calm and g = in_menu] by simp

subsection \<open>C9: the worker channels live as long as the process\<close>

lemma init_channels:
  "isInitialized (snd (init e loaded constructed)) \<longrightarrow>
     channels (snd (init e loaded constructed)) =
       ([worldGenerator \<mapsto> Worker ''js/workers/world-generator.js'',
         physics \<mapsto> Worker ''js/workers/physics-worker.js'',
         pathfinding \<mapsto> Worker ''js/workers/pathfinding.js''],
        [New_Worker ''js/workers/world-generator.js'', New_Worker ''js/workers/physics-worker.js'',
         New_Worker ''js/workers/pathfinding.js''])"
  apply (simp add: init_def constructed_def showLoadingScreen_def initWorkers_def
      setupEventListeners_def showError_def exec channels_def worker_effects_def
      split del: if_split)
  apply ((split if_split, intro conjI impI;
      simp add: exec channels_def worker_effects_def split del: if_split)+)?
  done

text \<open>
  Claim C9: the three worker channels are created once, by \<open>init\<close> at start-up, and no mode
  transition recreates or disposes them. When \<open>init\<close> completes, \<open>this.workers\<close> holds the
  three workers and exactly three workers have been constructed; \<open>setState\<close> to any mode,
  \<open>returnToMenu\<close>, both entry methods (and the continuation of \<open>startMultiplayer\<close>),
  \<open>pauseGame\<close>, \<open>resumeGame\<close> and a frame pass leave \<open>this.workers\<close> and the list of
  constructed workers as they were. The source has no call that terminates a worker.
\<close>

theorem worker_channels_outlive_sessions:
  "(isInitialized (snd (init e loaded constructed)) \<longrightarrow>
      channels (snd (init e loaded constructed)) =
       ([worldGenerator \<mapsto> Worker ''js/workers/world-generator.js'',
         physics \<mapsto> Worker ''js/workers/physics-worker.js'',
         pathfinding \<mapsto> Worker ''js/workers/pathfinding.js''],
        [New_Worker ''js/workers/world-generator.js'', New_Worker ''js/workers/physics-worker.js'',
         New_Worker ''js/workers/pathfinding.js'']))
   \<and> channels (snd (setState e s g)) = channels g
   \<and> channels (snd (returnToMenu e g)) = channels g
   \<and> channels (snd (startSinglePlayer e n sd t g)) = channels g
   \<and> channels (snd (startMultiplayer e a g)) = channels g
   \<and> channels (snd (startMultiplayer_resume e r g)) = channels g
   \<and> channels (snd (pauseGame e g)) = channels g
   \<and> channels (snd (resumeGame e g)) = channels g
   \<and> channels (snd (frameTick e g)) = channels g"
  by (intro conjI init_channels fixed_channels keepsD setState_fixed returnToMenu_fixed
        startSinglePlayer_fixed startMultiplayer_fixed startMultiplayer_resume_fixed
        pauseGame_fixed resumeGame_fixed frameTick_fixed)

theorem worker_channels_outlive_sessions_witness:
  "isInitialized (snd (init calm True constructed))
   \<and> channels (snd (init calm True constructed)) =
       ([worldGenerator \<mapsto> Worker ''js/workers/world-generator.js'',
         physics \<mapsto> Worker ''js/workers/physics-worker.js'',
         pathfinding \<mapsto> Worker ''js/workers/pathfinding.js''],
        [New_Worker ''js/workers/world-generator.js'', New_Worker ''js/workers/physics-worker.js'',
         New_Worker ''js/workers/pathfinding.js''])"
proof -
  have "isInitialized (snd (init calm True constructed))"
    using booted_fields(15) by (simp add: booted_def)
  then show ?thesis
    using worker_channels_outlive_sessions [where e = calm and loaded = True] by simp
qed

subsection \<open>C10: a frame callback queued before a quit\<close>

lemma running_on:
  "keeps isGameRunning (on_ui e a)" "keeps isGameRunning (on_audio e b)"
  "keeps isGameRunning (on_settings e s)" "keeps isGameRunning (on_multiplayer e m)"
  "keeps isGameRunning (on_renderer e r)" "keeps isGameRunning (on_world e w)"
  "keeps isGameRunning (on_player e pl)" "keeps isGameRunning (\<lambda>g. on_ui e (a' g) g)"
  by (simp_all add: keeps_def call_def on_if)

lemma queue_on:
  "keeps frameQueue (on_ui e a)" "keeps frameQueue (on_audio e b)"
  "keeps frameQueue (on_settings e s)" "keeps frameQueue (on_multiplayer e m)"
  "keeps frameQueue (on_renderer e r)" "keeps frameQueue (on_world e w)"
  "keeps frameQueue (on_player e pl)"
  by (simp_all add: keeps_def call_def on_if)

lemma gameLoop_running: "isGameRunning (snd (gameLoop e g))"
proof -
  have "\<exists>ps. gameLoop e g = block ps (g\<lparr>isGameRunning := True\<rparr>)
      \<and> (\<forall>p\<in>set ps. keeps isGameRunning p)"
    unfolding gameLoop_alt
    by (rule exI, rule conjI, rule refl) (auto intro!: keeps_intros running_on)
  then obtain ps where ps: "gameLoop e g = block ps (g\<lparr>isGameRunning := True\<rparr>)"
    "\<forall>p\<in>set ps. keeps isGameRunning p"
    by blast
  then have "keeps isGameRunning (block ps)" by (auto intro: keeps_block)
  then show ?thesis using ps(1) by (simp add: keeps_def)
qed

lemma returnToMenu_stops: "\<not> isGameRunning (snd (returnToMenu e g))"
proof -
  have "\<exists>ps. returnToMenu e g = block ps (g\<lparr>isGameRunning := False\<rparr>)
      \<and> (\<forall>p\<in>set ps. keeps isGameRunning p)"
    unfolding returnToMenu_def block_assign_head
    by (rule exI, rule conjI, rule refl) (auto intro!: keeps_intros running_on)
  then obtain ps where ps: "returnToMenu e g = block ps (g\<lparr>isGameRunning := False\<rparr>)"
    "\<forall>p\<in>set ps. keeps isGameRunning p"
    by blast
  then have "keeps isGameRunning (block ps)" by (auto intro: keeps_block)
  then show ?thesis using ps(1) by (simp add: keeps_def)
qed

lemma returnToMenu_queue: "keeps frameQueue (returnToMenu e)"
  unfolding returnToMenu_def by (auto intro!: keeps_intros queue_on)

lemma frameTick_quiet:
  assumes "quiet e" "settings g \<noteq> None" "ui g \<noteq> None" "0 < frameQueue g"
  shows "isGameRunning (snd (frameTick e g)) \<and> frameQueue (snd (frameTick e g)) = frameQueue g
     \<and> settings (snd (frameTick e g)) = settings g \<and> ui (snd (frameTick e g)) = ui g
     \<and> passes (trace (snd (frameTick e g))) = Suc (passes (trace g))"
proof -
  have q: "\<And>c. throws e c = False" using assms(1) by (simp add: quiet_def)
  show ?thesis
    using assms(2-4)
    apply (simp add: frameTick_def gameLoop_alt passes_def q exec split del: if_split)
    apply ((split if_split, intro conjI impI;
        simp add: passes_def q exec split del: if_split)+)?
    done
qed

lemma frameTicks_snoc: "frameTicks (es @ [e]) g = snd (frameTick e (frameTicks es g))"
  by (simp add: frameTicks_def)

lemma frameTicks_quiet:
  assumes "\<forall>e\<in>set es. quiet e" "settings g \<noteq> None" "ui g \<noteq> None" "0 < frameQueue g"
  shows "frameQueue (frameTicks es g) = frameQueue g \<and> settings (frameTicks es g) = settings g
     \<and> ui (frameTicks es g) = ui g
     \<and> passes (trace (frameTicks es g)) = passes (trace g) + length es
     \<and> (es \<noteq> [] \<longrightarrow> isGameRunning (frameTicks es g))"
  using assms(1)
proof (induction es rule: rev_induct)
  case Nil
  show ?case by (simp add: frameTicks_def)
next
  case (snoc e es)
  then have ih: "frameQueue (frameTicks es g) = frameQueue g"
    "settings (frameTicks es g) = settings g" "ui (frameTicks es g) = ui g"
    "passes (trace (frameTicks es g)) = passes (trace g) + length es"
    by simp_all
  have "quiet e" using snoc.prems by simp
  moreover have "settings (frameTicks es g) \<noteq> None" "ui (frameTicks es g) \<noteq> None"
    "0 < frameQueue (frameTicks es g)"
    using ih assms(2-4) by simp_all
  ultimately show ?case
    using frameTick_quiet [of e "frameTicks es g"] ih by (simp add: frameTicks_snoc)
qed

text \<open>
  Claim C10: \<open>gameLoop\<close> sets \<open>isGameRunning\<close> at the top of every pass and tests it only
  before rescheduling, so the flag is set after any pass, whatever it was before.
  \<open>returnToMenu\<close> clears the flag but cannot withdraw a callback that is already queued:
  it leaves the queue as it is. Hence, if a quit happens while a frame callback is queued,
  that callback's pass sets the flag again and reschedules itself, and so does every later
  one: after any number of frame ticks following the quit (settings and UI being there and
  no collaborator call throwing)
  the flag is set, a callback is still queued, and exactly one pass has run per tick.
\<close>

theorem queued_pass_revives_loop:
  "isGameRunning (snd (gameLoop e g))
   \<and> \<not> isGameRunning (snd (returnToMenu e g))
   \<and> frameQueue (snd (returnToMenu e g)) = frameQueue g
   \<and> (0 < frameQueue g \<and> settings g \<noteq> None \<and> ui g \<noteq> None \<and> es \<noteq> []
        \<and> (\<forall>e'\<in>set es. quiet e') \<longrightarrow>
         isGameRunning (frameTicks es (snd (returnToMenu e g)))
       \<and> frameQueue (frameTicks es (snd (returnToMenu e g))) = frameQueue g
       \<and> passes (trace (frameTicks es (snd (returnToMenu e g))))
            = passes (trace (snd (returnToMenu e g))) + length es)"
proof -
  let ?m = "snd (returnToMenu e g)"
  have q: "frameQueue ?m = frameQueue g" by (rule keepsD [OF returnToMenu_queue])
  have "fixed ?m = fixed g" by (rule keepsD [OF returnToMenu_fixed])
  then have s: "settings ?m = settings g" "ui ?m = ui g"
    by (simp_all add: fixed_def)
  show ?thesis
    using gameLoop_running [of e g] returnToMenu_stops [of e g] q s
      frameTicks_quiet [of es ?m]
    by auto
qed

theorem queued_pass_revives_loop_witness:
  "0 < frameQueue in_game \<and> settings in_game \<noteq> None \<and> ui in_game \<noteq> None
   \<and> [calm\<lparr>loop_now := 5016\<rparr>, calm\<lparr>loop_now := 5032\<rparr>] \<noteq> []
   \<and> quiet (calm\<lparr>loop_now := 5016\<rparr>) \<and> quiet (calm\<lparr>loop_now := 5032\<rparr>)
   \<and> \<not> isGameRunning (snd (returnToMenu calm in_game))
   \<and> isGameRunning (frameTicks [calm\<lparr>loop_now := 5016\<rparr>, calm\<lparr>loop_now := 5032\<rparr>]
        (snd (returnToMenu calm in_game)))
   \<and> frameQueue (frameTicks [calm\<lparr>loop_now := 5016\<rparr>, calm\<lparr>loop_now := 5032\<rparr>]
        (snd (returnToMenu calm in_game))) = 1
   \<and> passes (trace (frameTicks [calm\<lparr>loop_now := 5016\<rparr>, calm\<lparr>loop_now := 5032\<rparr>]
        (snd (returnToMenu calm in_game))))
        = passes (trace (snd (returnToMenu calm in_game))) + 2"
proof -
  have h: "0 < frameQueue in_game" "settings in_game \<noteq> None" "ui in_game \<noteq> None"
    "\<forall>e'\<in>set [calm\<lparr>loop_now := 5016\<rparr>, calm\<lparr>loop_now := 5032\<rparr>]. quiet e'"
    by (simp_all add: quiet_def)
  show ?thesis
    using h queued_pass_revives_loop [where e = calm and g = in_game
        and es = "[calm\<lparr>loop_now := 5016\<rparr>, calm\<lparr>loop_now := 5032\<rparr>]"]
    by simp
qed

end
